theory Spec2Isabelle
  imports Complex_Main
begin

section \<open>JavaScript values used by the portfolio carousel\<close>

text \<open>
  Numbers are IEEE doubles in the source. The model computes with the real numbers the
  doubles stand for (\<open>Math.PI\<close> is \<open>pi\<close>), plus the one non-number value the
  code can produce from its inputs: \<open>NaN\<close>, the result of negating a property that
  does not exist. Infinities and rounding are outside the model.
\<close>

datatype jsnum = Num real | NaN

text \<open>\<open>Math.trunc\<close>: the integer part, rounding towards zero.\<close>

definition js_trunc :: "real \<Rightarrow> int" where
  "js_trunc x = (if 0 \<le> x then \<lfloor>x\<rfloor> else \<lceil>x\<rceil>)"

text \<open>
  The remainder operator \<open>a % b\<close> on numbers: the result has the sign of the dividend
  and is \<open>NaN\<close> for a zero divisor or a \<open>NaN\<close> operand.
\<close>

fun js_mod :: "jsnum \<Rightarrow> jsnum \<Rightarrow> jsnum" where
  "js_mod (Num a) (Num b) = (if b = 0 then NaN else Num (a - b * of_int (js_trunc (a / b))))"
| "js_mod _ _ = NaN"

fun js_add :: "jsnum \<Rightarrow> jsnum \<Rightarrow> jsnum" where
  "js_add (Num a) (Num b) = Num (a + b)"
| "js_add _ _ = NaN"

fun js_sub :: "jsnum \<Rightarrow> jsnum \<Rightarrow> jsnum" where
  "js_sub (Num a) (Num b) = Num (a - b)"
| "js_sub _ _ = NaN"

fun js_neg :: "jsnum \<Rightarrow> jsnum" where
  "js_neg (Num a) = Num (- a)"
| "js_neg NaN = NaN"

fun js_abs :: "jsnum \<Rightarrow> jsnum" where
  "js_abs (Num a) = Num \<bar>a\<bar>"
| "js_abs NaN = NaN"

text \<open>\<open>a > b\<close>: false as soon as one operand is \<open>NaN\<close>.\<close>

fun js_gt :: "jsnum \<Rightarrow> jsnum \<Rightarrow> bool" where
  "js_gt (Num a) (Num b) = (b < a)"
| "js_gt _ _ = False"

text \<open>
  Property lookup \<open>table[key]\<close> on an object literal. A key the literal does not
  define is looked up on \<open>Object.prototype\<close>, whose properties are functions (or, for
  \<open>__proto__\<close>, the prototype object itself): truthy values without any of the
  fields the tables below store.
\<close>

definition object_prototype_keys :: "string list" where
  "object_prototype_keys =
     [''constructor'', ''__defineGetter__'', ''__defineSetter__'', ''hasOwnProperty'',
      ''__lookupGetter__'', ''__lookupSetter__'', ''isPrototypeOf'',
      ''propertyIsEnumerable'', ''toString'', ''valueOf'', ''__proto__'',
      ''toLocaleString'']"

datatype 'v property = Own 'v | Inherited | Undefined

definition js_get :: "(string \<rightharpoonup> 'v) \<Rightarrow> string \<Rightarrow> 'v property" where
  "js_get table key =
     (case table key of
        Some v \<Rightarrow> Own v
      | None \<Rightarrow> if key \<in> set object_prototype_keys then Inherited else Undefined)"

datatype js_error = TypeError

text \<open>How a call ends: it returns a value or throws.\<close>

datatype 'a completion = Returned 'a | Threw js_error

datatype console_entry = Log string | Warn string | Error string


section \<open>The carousel (carousel.js, in app.js)\<close>

text \<open>
  \<open>SECTION_DEFINITIONS\<close>: of each section's definition the rotation code reads the
  \<open>angle\<close> field only.
\<close>

definition SECTION_DEFINITIONS :: "string \<rightharpoonup> real" where
  "SECTION_DEFINITIONS =
     [''project-theater'' \<mapsto> 0,
      ''achievement-shelf'' \<mapsto> pi / 2,
      ''skill-planet'' \<mapsto> pi,
      ''chill-zone'' \<mapsto> - pi / 2]"

text \<open>
  A \<open>gsap.to(state, {rotation: ...})\<close> tween that has been started and has not
  completed: the value it drives \<open>state.rotation\<close> to, and its duration.
\<close>

record tween =
  tw_to :: jsnum
  tw_duration :: real

text \<open>
  The closure state of \<open>createCarousel\<close>: the \<open>state\<close> object, the setting the
  rotation code reads, the tween in flight and the console.
\<close>

record carousel =
  rotation :: jsnum
  targetRotation :: jsnum
  isAnimating :: bool
  isLocked :: bool
  rotationDuration :: real
  rotationTween :: "tween option"
  console :: "console_entry list"

text \<open>\<open>createCarousel(scene)\<close> with the default settings.\<close>

definition createCarousel :: carousel where
  "createCarousel =
     \<lparr>rotation = Num 0, targetRotation = Num 0, isAnimating = False, isLocked = False,
      rotationDuration = 12 / 10, rotationTween = None, console = [Log ''Carousel initialized'']\<rparr>"

definition rotate_carousel :: "jsnum \<Rightarrow> carousel \<Rightarrow> carousel" where
  "rotate_carousel amount s =
     (if isLocked s then s else s\<lparr>rotation := js_add (rotation s) amount\<rparr>)"

text \<open>
  \<open>rotateTo(targetAngle, duration = settings.rotationDuration)\<close>. The result is the
  tween, or \<open>None\<close> for \<open>null\<close>.
\<close>

definition rotateTo :: "jsnum \<Rightarrow> real option \<Rightarrow> carousel \<Rightarrow> tween option \<times> carousel" where
  "rotateTo targetAngle duration s =
     (if isLocked s \<or> isAnimating s then (None, s)
      else
        let currentAngle = js_mod (rotation s) (Num (pi * 2));
            normalizedTarget = js_mod targetAngle (Num (pi * 2));
            diff = js_sub normalizedTarget currentAngle;
            normalizedTarget =
              (if js_gt (js_abs diff) (Num pi)
               then (if js_gt diff (Num 0)
                     then js_sub normalizedTarget (Num (pi * 2))
                     else js_add normalizedTarget (Num (pi * 2)))
               else normalizedTarget);
            rotationTween =
              \<lparr>tw_to = normalizedTarget,
               tw_duration = (case duration of None \<Rightarrow> rotationDuration s | Some d \<Rightarrow> d)\<rparr>
        in (Some rotationTween,
            s\<lparr>targetRotation := normalizedTarget, isAnimating := True,
              rotationTween := Some rotationTween\<rparr>))"

definition rotateToSection :: "string \<Rightarrow> real option \<Rightarrow> carousel \<Rightarrow> tween option \<times> carousel" where
  "rotateToSection sectionKey duration s =
     (case js_get SECTION_DEFINITIONS sectionKey of
        Undefined \<Rightarrow>
          (None, s\<lparr>console := console s @ [Warn (''Section \"'' @ sectionKey @ ''\" not found'')]\<rparr>)
      | Own angle \<Rightarrow> rotateTo (js_neg (Num angle)) duration s
      | Inherited \<Rightarrow> rotateTo (js_neg NaN) duration s)"

definition getRotation :: "carousel \<Rightarrow> jsnum" where
  "getRotation s = rotation s"

definition setLocked :: "bool \<Rightarrow> carousel \<Rightarrow> carousel" where
  "setLocked locked s = s\<lparr>isLocked := locked\<rparr>"

text \<open>
  The tween running to its end: the last \<open>onUpdate\<close> has written the end value into
  \<open>state.rotation\<close>, then \<open>onComplete\<close> clears \<open>isAnimating\<close>.
\<close>

definition completeRotation :: "carousel \<Rightarrow> carousel" where
  "completeRotation s =
     (case rotationTween s of
        None \<Rightarrow> s
      | Some tw \<Rightarrow> s\<lparr>rotation := tw_to tw, isAnimating := False, rotationTween := None\<rparr>)"

text \<open>The carousel idle at an angle: a new carousel turned there.\<close>

definition at_rest :: "real \<Rightarrow> carousel" where
  "at_rest r = createCarousel\<lparr>rotation := Num r, targetRotation := Num r\<rparr>"

text \<open>
  \<open>shortestArc(start, end)\<close> of math.js, the utility the repository provides for the
  signed shortest arc from one angle to another.
\<close>

definition shortestArc :: "jsnum \<Rightarrow> jsnum \<Rightarrow> jsnum" where
  "shortestArc start end' =
     (let diff = js_mod (js_sub end' start) (Num (pi * 2))
      in if js_gt (Num (- pi)) diff then js_add diff (Num (pi * 2))
         else if js_gt diff (Num pi) then js_sub diff (Num (pi * 2))
         else diff)"


section \<open>The camera system (camera.js)\<close>

record vec3 =
  vx :: real
  vy :: real
  vz :: real

text \<open>
  A settings object as \<open>configureOrbitControls\<close> reads it: every field may be
  missing (\<open>undefined\<close>).
\<close>

record orbit_settings =
  os_enableDamping :: "bool option"
  os_dampingFactor :: "real option"
  os_rotateSpeed :: "real option"
  os_minDistance :: "real option"
  os_maxDistance :: "real option"
  os_minPolarAngle :: "real option"
  os_maxPolarAngle :: "real option"
  os_minAzimuthAngle :: "real option"
  os_maxAzimuthAngle :: "real option"
  os_enablePan :: "bool option"
  os_enableZoom :: "bool option"
  os_enableRotate :: "bool option"
  os_autoRotate :: "bool option"
  os_autoRotateSpeed :: "real option"

text \<open>
  The \<open>OrbitControls\<close> instance: the fields this repository reads or writes. An
  azimuth bound of \<open>None\<close> is no bound (the library's infinite default).
\<close>

record orbit_controls =
  oc_enabled :: bool
  oc_target :: vec3
  oc_enableDamping :: bool
  oc_dampingFactor :: real
  oc_rotateSpeed :: real
  oc_minDistance :: real
  oc_maxDistance :: real
  oc_minPolarAngle :: real
  oc_maxPolarAngle :: real
  oc_minAzimuthAngle :: "real option"
  oc_maxAzimuthAngle :: "real option"
  oc_enablePan :: bool
  oc_enableZoom :: bool
  oc_enableRotate :: bool
  oc_autoRotate :: bool
  oc_autoRotateSpeed :: real

text \<open>\<open>if (settings.f !== undefined) controls.f = settings.f\<close>\<close>

definition if_defined :: "'a option \<Rightarrow> 'a \<Rightarrow> 'a" where
  "if_defined setting current = (case setting of None \<Rightarrow> current | Some v \<Rightarrow> v)"

definition configureOrbitControls :: "orbit_settings \<Rightarrow> orbit_controls \<Rightarrow> orbit_controls" where
  "configureOrbitControls settings controls =
     controls
       \<lparr>oc_enableDamping := if_defined (os_enableDamping settings) (oc_enableDamping controls),
        oc_dampingFactor := if_defined (os_dampingFactor settings) (oc_dampingFactor controls),
        oc_rotateSpeed := if_defined (os_rotateSpeed settings) (oc_rotateSpeed controls),
        oc_minDistance := if_defined (os_minDistance settings) (oc_minDistance controls),
        oc_maxDistance := if_defined (os_maxDistance settings) (oc_maxDistance controls),
        oc_minPolarAngle := if_defined (os_minPolarAngle settings) (oc_minPolarAngle controls),
        oc_maxPolarAngle := if_defined (os_maxPolarAngle settings) (oc_maxPolarAngle controls),
        oc_minAzimuthAngle :=
          if_defined (map_option Some (os_minAzimuthAngle settings)) (oc_minAzimuthAngle controls),
        oc_maxAzimuthAngle :=
          if_defined (map_option Some (os_maxAzimuthAngle settings)) (oc_maxAzimuthAngle controls),
        oc_enablePan := if_defined (os_enablePan settings) (oc_enablePan controls),
        oc_enableZoom := if_defined (os_enableZoom settings) (oc_enableZoom controls),
        oc_enableRotate := if_defined (os_enableRotate settings) (oc_enableRotate controls),
        oc_autoRotate := if_defined (os_autoRotate settings) (oc_autoRotate controls),
        oc_autoRotateSpeed := if_defined (os_autoRotateSpeed settings) (oc_autoRotateSpeed controls)\<rparr>"

record camera_preset =
  cp_position :: vec3
  cp_lookAt :: vec3
  cp_fov :: real
  cp_orbitControls :: "orbit_settings option"

definition no_orbit_settings :: orbit_settings where
  "no_orbit_settings =
     \<lparr>os_enableDamping = None, os_dampingFactor = None, os_rotateSpeed = None,
      os_minDistance = None, os_maxDistance = None, os_minPolarAngle = None,
      os_maxPolarAngle = None, os_minAzimuthAngle = None, os_maxAzimuthAngle = None,
      os_enablePan = None, os_enableZoom = None, os_enableRotate = None,
      os_autoRotate = None, os_autoRotateSpeed = None\<rparr>"

definition overview_orbit :: orbit_settings where
  "overview_orbit =
     no_orbit_settings
       \<lparr>os_minDistance := Some 15, os_maxDistance := Some 40, os_minPolarAngle := Some (1 / 10),
        os_maxPolarAngle := Some (pi / (15 / 10)), os_enablePan := Some False\<rparr>"

definition section_orbit :: orbit_settings where
  "section_orbit =
     no_orbit_settings
       \<lparr>os_minDistance := Some 5, os_maxDistance := Some 15, os_minPolarAngle := Some (3 / 10),
        os_maxPolarAngle := Some (pi / (18 / 10)), os_enablePan := Some False\<rparr>"

definition SECTION_CAMERA_SETTINGS :: "string \<rightharpoonup> camera_preset" where
  "SECTION_CAMERA_SETTINGS =
     [''overview'' \<mapsto>
        \<lparr>cp_position = \<lparr>vx = 0, vy = 15, vz = 30\<rparr>, cp_lookAt = \<lparr>vx = 0, vy = 0, vz = 0\<rparr>,
         cp_fov = 75, cp_orbitControls = Some overview_orbit\<rparr>,
      ''project-theater'' \<mapsto>
        \<lparr>cp_position = \<lparr>vx = - 12, vy = 5, vz = 0\<rparr>, cp_lookAt = \<lparr>vx = - 12, vy = 5, vz = - 5\<rparr>,
         cp_fov = 60, cp_orbitControls = Some section_orbit\<rparr>,
      ''achievement-shelf'' \<mapsto>
        \<lparr>cp_position = \<lparr>vx = 0, vy = 5, vz = - 12\<rparr>, cp_lookAt = \<lparr>vx = 0, vy = 5, vz = - 17\<rparr>,
         cp_fov = 60, cp_orbitControls = Some section_orbit\<rparr>,
      ''skill-planet'' \<mapsto>
        \<lparr>cp_position = \<lparr>vx = 12, vy = 5, vz = 0\<rparr>, cp_lookAt = \<lparr>vx = 12, vy = 5, vz = - 5\<rparr>,
         cp_fov = 60, cp_orbitControls = Some section_orbit\<rparr>,
      ''chill-zone'' \<mapsto>
        \<lparr>cp_position = \<lparr>vx = 0, vy = 5, vz = 12\<rparr>, cp_lookAt = \<lparr>vx = 0, vy = 5, vz = 7\<rparr>,
         cp_fov = 60, cp_orbitControls = Some section_orbit\<rparr>]"

text \<open>
  A GSAP timeline built by the camera controller: the end values of the tweens added at
  time 0, their common duration and easing, and the \<open>onComplete\<close> callback. The
  camera controller installs \<open>CameraOnComplete\<close>, the closure over the section's
  settings; the input controls replace it through \<open>eventCallback\<close> by
  \<open>ControlsOnComplete\<close>, the closure over the selected section's name.
\<close>

datatype camera_tween = PositionTo vec3 | TargetTo vec3 | FovTo real

datatype timeline_callback = CameraOnComplete "orbit_settings option" | ControlsOnComplete string

record timeline =
  tl_tweens :: "camera_tween list"
  tl_duration :: real
  tl_ease :: string
  tl_onComplete :: timeline_callback

record camera_snapshot =
  cs_position :: vec3
  cs_target :: vec3
  cs_fov :: real

text \<open>
  The closure state of \<open>createCameraSystem\<close>. Timelines are objects shared between
  the controller, GSAP and the callers that receive them: they live in
  \<open>cam_timelines\<close> and are referred to by their index there.
\<close>

record camera =
  cam_position :: vec3
  cam_fov :: real
  cam_controls :: orbit_controls
  cam_currentState :: camera_snapshot
  cam_activeTransition :: "nat option"
  cam_currentSection :: string
  cam_isLocked :: bool
  cam_timelines :: "timeline list"
  cam_console :: "console_entry list"

text \<open>
  \<open>createCameraSystem(renderer)\<close> without options: a new \<open>OrbitControls\<close>
  (enabled, target at the origin, zoom and rotation on, no azimuth bounds) configured with
  the default settings.
\<close>

definition createCameraSystem :: camera where
  "createCameraSystem =
     \<lparr>cam_position = \<lparr>vx = 0, vy = 15, vz = 30\<rparr>,
      cam_fov = 75,
      cam_controls =
        \<lparr>oc_enabled = True, oc_target = \<lparr>vx = 0, vy = 0, vz = 0\<rparr>, oc_enableDamping = True,
         oc_dampingFactor = 5 / 100, oc_rotateSpeed = 5 / 10, oc_minDistance = 15,
         oc_maxDistance = 40, oc_minPolarAngle = 1 / 10, oc_maxPolarAngle = pi / (15 / 10),
         oc_minAzimuthAngle = None, oc_maxAzimuthAngle = None, oc_enablePan = False,
         oc_enableZoom = True, oc_enableRotate = True, oc_autoRotate = False,
         oc_autoRotateSpeed = 5 / 10\<rparr>,
      cam_currentState =
        \<lparr>cs_position = \<lparr>vx = 0, vy = 15, vz = 30\<rparr>, cs_target = \<lparr>vx = 0, vy = 0, vz = 0\<rparr>,
         cs_fov = 75\<rparr>,
      cam_activeTransition = None,
      cam_currentSection = ''overview'',
      cam_isLocked = False,
      cam_timelines = [],
      cam_console = []\<rparr>"

text \<open>
  The body of \<open>transitionToSection\<close> once the section's settings are at hand. For a
  property inherited from \<open>Object.prototype\<close> the settings have no \<open>position\<close>:
  the timeline has been created and \<open>sectionSettings.position.x\<close> throws.
\<close>

definition startTransition ::
  "string \<Rightarrow> camera_preset property \<Rightarrow> real \<Rightarrow> string \<Rightarrow> camera \<Rightarrow> nat completion \<times> camera" where
  "startTransition sectionName sectionSettings duration easing cam =
     (let cam = cam\<lparr>cam_currentSection := sectionName\<rparr>;
          cam = cam\<lparr>cam_currentState :=
                  \<lparr>cs_position = cam_position cam, cs_target = oc_target (cam_controls cam),
                   cs_fov = cam_fov cam\<rparr>\<rparr>;
          cam = cam\<lparr>cam_controls := (cam_controls cam)\<lparr>oc_enabled := False\<rparr>\<rparr>;
          timeline = length (cam_timelines cam)
      in case sectionSettings of
           Own preset \<Rightarrow>
             (let tweens = [PositionTo (cp_position preset), TargetTo (cp_lookAt preset)] @
                    (if cp_fov preset \<noteq> 0 \<and> cp_fov preset \<noteq> cam_fov cam
                     then [FovTo (cp_fov preset)] else []);
                  cam = cam\<lparr>cam_timelines := cam_timelines cam @
                          [\<lparr>tl_tweens = tweens, tl_duration = duration, tl_ease = easing,
                            tl_onComplete = CameraOnComplete (cp_orbitControls preset)\<rparr>]\<rparr>
              in (Returned timeline, cam\<lparr>cam_activeTransition := Some timeline\<rparr>))
         | _ \<Rightarrow>
             (Threw TypeError,
              cam\<lparr>cam_timelines := cam_timelines cam @
                     [\<lparr>tl_tweens = [], tl_duration = duration, tl_ease = easing,
                       tl_onComplete = CameraOnComplete None\<rparr>]\<rparr>))"

text \<open>
  \<open>transitionToSection(sectionName, duration = 2, easing = 'power2.inOut')\<close>; the
  result is the timeline of the returned transition object.
\<close>

function transitionToSection ::
  "string \<Rightarrow> real option \<Rightarrow> string option \<Rightarrow> camera \<Rightarrow> nat completion \<times> camera" where
  "transitionToSection sectionName duration easing cam =
     (let duration = (case duration of None \<Rightarrow> 2 | Some d \<Rightarrow> d);
          easing = (case easing of None \<Rightarrow> ''power2.inOut'' | Some e \<Rightarrow> e);
          sectionSettings = js_get SECTION_CAMERA_SETTINGS sectionName
      in if sectionSettings = Undefined
         then transitionToSection ''overview'' (Some duration) (Some easing)
                (cam\<lparr>cam_console := cam_console cam @
                   [Warn (''Section \"'' @ sectionName @ ''\" not found, transitioning to overview'')]\<rparr>)
         else startTransition sectionName sectionSettings duration easing cam)"
  by pat_completeness auto
termination
  by (relation "measure (\<lambda>(sectionName, duration, easing, cam).
        if js_get SECTION_CAMERA_SETTINGS sectionName = Undefined then 1 else 0)")
     (auto simp: js_get_def SECTION_CAMERA_SETTINGS_def)

declare transitionToSection.simps [simp del]

definition resetToOverview :: "real option \<Rightarrow> camera \<Rightarrow> nat completion \<times> camera" where
  "resetToOverview duration cam =
     transitionToSection ''overview'' (Some (case duration of None \<Rightarrow> 15 / 10 | Some d \<Rightarrow> d)) None cam"

definition apply_tween :: "camera_tween \<Rightarrow> camera \<Rightarrow> camera" where
  "apply_tween tw cam =
     (case tw of
        PositionTo v \<Rightarrow> cam\<lparr>cam_position := v\<rparr>
      | TargetTo v \<Rightarrow> cam\<lparr>cam_controls := (cam_controls cam)\<lparr>oc_target := v\<rparr>\<rparr>
      | FovTo f \<Rightarrow> cam\<lparr>cam_fov := f\<rparr>)"

text \<open>The \<open>onComplete\<close> closure that \<open>transitionToSection\<close> gives its timeline.\<close>

definition cameraOnComplete :: "orbit_settings option \<Rightarrow> camera \<Rightarrow> camera" where
  "cameraOnComplete orbitControls cam =
     (let cam = (case orbitControls of
                   None \<Rightarrow> cam
                 | Some settings \<Rightarrow>
                     cam\<lparr>cam_controls := configureOrbitControls settings (cam_controls cam)\<rparr>);
          cam = cam\<lparr>cam_controls := (cam_controls cam)\<lparr>oc_enabled := \<not> cam_isLocked cam\<rparr>\<rparr>
      in cam\<lparr>cam_currentState :=
               \<lparr>cs_position = cam_position cam, cs_target = oc_target (cam_controls cam),
                cs_fov = cam_fov cam\<rparr>\<rparr>)"

text \<open>
  A timeline running to its end: every tween has written its end value, then the
  callback runs. A callback installed by the input controls runs on their state (see
  \<open>controls_completeTimeline\<close> below); on the camera it changes nothing.
\<close>

definition completeTimeline :: "nat \<Rightarrow> camera \<Rightarrow> camera" where
  "completeTimeline timeline cam =
     (if timeline < length (cam_timelines cam)
      then let tl = cam_timelines cam ! timeline;
               cam = fold apply_tween (tl_tweens tl) cam
           in (case tl_onComplete tl of
                 CameraOnComplete orbitControls \<Rightarrow> cameraOnComplete orbitControls cam
               | ControlsOnComplete _ \<Rightarrow> cam)
      else cam)"


section \<open>The input controls (controls.js)\<close>

text \<open>
  The closure state of \<open>createControls\<close>, as far as keyboard handling and section
  selection use it: the \<open>input\<close> object, the \<open>autoRotate\<close> setting, and the
  camera and carousel controllers the controls were created with.
\<close>

record controls =
  in_keys :: "string \<rightharpoonup> bool"
  in_isTransitioning :: bool
  in_activeSection :: "string option"
  ctl_autoRotate :: bool
  ctl_camera :: camera
  ctl_carousel :: carousel
  ctl_console :: "console_entry list"

text \<open>\<open>createControls(scene, camera, renderer, carousel)\<close> with the default settings.\<close>

definition createControls :: "camera \<Rightarrow> carousel \<Rightarrow> controls" where
  "createControls cam car =
     \<lparr>in_keys = Map.empty, in_isTransitioning = False, in_activeSection = None,
      ctl_autoRotate = True, ctl_camera = cam, ctl_carousel = car,
      ctl_console = [Log ''Controls initialized'']\<rparr>"

text \<open>Truthiness of a value that is \<open>null\<close> or a string.\<close>

definition truthy :: "string option \<Rightarrow> bool" where
  "truthy v = (case v of None \<Rightarrow> False | Some str \<Rightarrow> str \<noteq> [])"

definition handleArrowNavigation :: "string \<Rightarrow> controls \<Rightarrow> controls" where
  "handleArrowNavigation direction c =
     (let currentRotation = getRotation (ctl_carousel c);
          sectionAngle = Num (pi / 2);
          targetRotation =
            (if direction = ''left'' then js_add currentRotation sectionAngle
             else js_sub currentRotation sectionAngle)
      in c\<lparr>ctl_carousel := snd (rotateTo targetRotation None (ctl_carousel c))\<rparr>)"

text \<open>
  The Escape branch of \<open>onKeyDown\<close>, also \<open>controlsController.resetToOverview\<close>.
\<close>

definition controls_resetToOverview :: "controls \<Rightarrow> unit completion \<times> controls" where
  "controls_resetToOverview c =
     (if truthy (in_activeSection c)
      then (case resetToOverview None (ctl_camera c) of
              (Threw e, cam) \<Rightarrow> (Threw e, c\<lparr>ctl_camera := cam\<rparr>)
            | (Returned _, cam) \<Rightarrow> (Returned (), c\<lparr>ctl_camera := cam, in_activeSection := None\<rparr>))
      else (Returned (), c))"

text \<open>\<open>onKeyDown(event)\<close>, on the event's \<open>code\<close>.\<close>

definition onKeyDown :: "string \<Rightarrow> controls \<Rightarrow> unit completion \<times> controls" where
  "onKeyDown code c =
     (let c = c\<lparr>in_keys := (in_keys c)(code \<mapsto> True)\<rparr>
      in if \<not> in_isTransitioning c
         then if code = ''ArrowLeft'' then (Returned (), handleArrowNavigation ''left'' c)
              else if code = ''ArrowRight'' then (Returned (), handleArrowNavigation ''right'' c)
              else if code = ''Escape'' then controls_resetToOverview c
              else if code = ''Space'' then (Returned (), c\<lparr>ctl_autoRotate := \<not> ctl_autoRotate c\<rparr>)
              else (Returned (), c)
         else (Returned (), c))"

text \<open>
  \<open>selectSection(sectionName, sectionObject)\<close> of the controls. The camera
  controller always has \<open>transitionToSection\<close>, and the transition it returns always
  has a timeline, so the \<open>setTimeout\<close> fallback is never taken.
\<close>

definition selectSection :: "string \<Rightarrow> controls \<Rightarrow> unit completion \<times> controls" where
  "selectSection sectionName c =
     (if in_activeSection c = Some sectionName then (Returned (), c)
      else
        let c = c\<lparr>ctl_console := ctl_console c @ [Log (''Selecting section: '' @ sectionName)]\<rparr>;
            c = c\<lparr>in_isTransitioning := True\<rparr>
        in case transitionToSection sectionName None None (ctl_camera c) of
             (Threw e, cam) \<Rightarrow> (Threw e, c\<lparr>ctl_camera := cam\<rparr>)
           | (Returned timeline, cam) \<Rightarrow>
               (Returned (),
                c\<lparr>ctl_camera :=
                    cam\<lparr>cam_timelines :=
                      (cam_timelines cam)
                        [timeline := (cam_timelines cam ! timeline)
                           \<lparr>tl_onComplete := ControlsOnComplete sectionName\<rparr>]\<rparr>\<rparr>))"

text \<open>
  A camera timeline running to its end while the controls exist: the tweens and the
  camera's callback as in \<open>completeTimeline\<close>; the callback installed by
  \<open>selectSection\<close> clears the transitioning flag and records the active section.
\<close>

definition controls_completeTimeline :: "nat \<Rightarrow> controls \<Rightarrow> controls" where
  "controls_completeTimeline timeline c =
     (let c' = c\<lparr>ctl_camera := completeTimeline timeline (ctl_camera c)\<rparr>
      in if timeline < length (cam_timelines (ctl_camera c))
         then (case tl_onComplete (cam_timelines (ctl_camera c) ! timeline) of
                 ControlsOnComplete sectionName \<Rightarrow>
                   c'\<lparr>in_isTransitioning := False, in_activeSection := Some sectionName\<rparr>
               | CameraOnComplete _ \<Rightarrow> c')
         else c')"

text \<open>The carousel's rotation tween running to its end while the controls exist.\<close>

definition controls_completeRotation :: "controls \<Rightarrow> controls" where
  "controls_completeRotation c = c\<lparr>ctl_carousel := completeRotation (ctl_carousel c)\<rparr>"

text \<open>One ArrowLeft key press, followed by the rotation it starts running to its end.\<close>

definition arrow_left_completed :: "controls \<Rightarrow> controls" where
  "arrow_left_completed c = controls_completeRotation (snd (onKeyDown ''ArrowLeft'' c))"


section \<open>The application controller (app.js)\<close>

text \<open>
  The \<open>APP\<close> object, as far as section selection uses it. \<open>app_tweens\<close> holds the
  camera tweens started with \<open>gsap.to\<close> and not yet completed: the position driven
  to, the point looked at, and the section whose panel \<open>onComplete\<close> shows.
\<close>

record app_tween =
  at_cameraTarget :: vec3
  at_lookAtPosition :: vec3
  at_section :: string

record app =
  app_isLoading :: bool
  app_isTransitioning :: bool
  app_activeSection :: "string option"
  app_cameraPosition :: vec3
  app_controlsEnabled :: bool
  app_controlsTarget :: vec3
  app_minDistance :: real
  app_maxDistance :: real
  app_tweens :: "app_tween list"
  app_infoPanel :: "string option"
  app_console :: "console_entry list"

text \<open>
  The \<open>APP\<close> object once loading has finished and nothing is selected, with the
  camera and the controls as \<open>createCamera\<close> and \<open>createControls\<close> of app.js
  leave them.
\<close>

definition APP :: app where
  "APP =
     \<lparr>app_isLoading = False, app_isTransitioning = False, app_activeSection = None,
      app_cameraPosition = \<lparr>vx = 0, vy = 15, vz = 30\<rparr>, app_controlsEnabled = True,
      app_controlsTarget = \<lparr>vx = 0, vy = 0, vz = 0\<rparr>, app_minDistance = 15,
      app_maxDistance = 40, app_tweens = [], app_infoPanel = None, app_console = []\<rparr>"

text \<open>The \<open>switch\<close> of \<open>selectSection\<close>; it has no default case.\<close>

definition section_camera :: "string \<Rightarrow> (vec3 \<times> vec3) option" where
  "section_camera sectionName =
     (if sectionName = ''project-theater''
      then Some (\<lparr>vx = - 12, vy = 5, vz = 0\<rparr>, \<lparr>vx = - 12, vy = 5, vz = - 5\<rparr>)
      else if sectionName = ''achievement-shelf''
      then Some (\<lparr>vx = 0, vy = 5, vz = - 12\<rparr>, \<lparr>vx = 0, vy = 5, vz = - 17\<rparr>)
      else if sectionName = ''skill-planet''
      then Some (\<lparr>vx = 12, vy = 5, vz = 0\<rparr>, \<lparr>vx = 12, vy = 5, vz = - 5\<rparr>)
      else if sectionName = ''chill-zone''
      then Some (\<lparr>vx = 0, vy = 5, vz = 12\<rparr>, \<lparr>vx = 0, vy = 5, vz = 7\<rparr>)
      else None)"

text \<open>
  \<open>selectSection(sectionName)\<close> of app.js. For a name outside the \<open>switch\<close>,
  \<open>cameraTarget\<close> stays undefined and reading \<open>cameraTarget.x\<close> throws, after the
  flags have been set.
\<close>

definition app_selectSection :: "string \<Rightarrow> app \<Rightarrow> unit completion \<times> app" where
  "app_selectSection sectionName a =
     (if app_isTransitioning a \<or> app_activeSection a = Some sectionName then (Returned (), a)
      else
        let a = a\<lparr>app_console := app_console a @ [Log (''Selecting section: '' @ sectionName)]\<rparr>;
            a = a\<lparr>app_activeSection := Some sectionName\<rparr>;
            a = a\<lparr>app_controlsEnabled := False, app_isTransitioning := True\<rparr>
        in case section_camera sectionName of
             None \<Rightarrow> (Threw TypeError, a)
           | Some (cameraTarget, lookAtPosition) \<Rightarrow>
               (Returned (),
                a\<lparr>app_tweens := app_tweens a @
                     [\<lparr>at_cameraTarget = cameraTarget, at_lookAtPosition = lookAtPosition,
                       at_section = sectionName\<rparr>]\<rparr>))"

text \<open>The oldest camera tween of \<open>selectSection\<close> running to its end.\<close>

definition app_completeTween :: "app \<Rightarrow> app" where
  "app_completeTween a =
     (case app_tweens a of
        [] \<Rightarrow> a
      | tw # rest \<Rightarrow>
          a\<lparr>app_cameraPosition := at_cameraTarget tw, app_isTransitioning := False,
            app_infoPanel := Some (at_section tw), app_controlsTarget := at_lookAtPosition tw,
            app_minDistance := 5, app_maxDistance := 15, app_controlsEnabled := True,
            app_tweens := rest\<rparr>)"


section \<open>The transition controller (transition.js)\<close>

datatype transition_state = IDLE | ACTIVE | COMPLETING

record transition_settings =
  ts_duration :: real
  ts_cameraEase :: string
  ts_rotationEase :: string
  ts_bloomTransition :: bool
  ts_audioTransition :: bool

definition DEFAULT_TRANSITION_SETTINGS :: transition_settings where
  "DEFAULT_TRANSITION_SETTINGS =
     \<lparr>ts_duration = 12 / 10, ts_cameraEase = ''power2.inOut'', ts_rotationEase = ''power2.inOut'',
      ts_bloomTransition = True, ts_audioTransition = True\<rparr>"

text \<open>A \<open>customOptions\<close> object: each setting may be missing.\<close>

record transition_options =
  to_duration :: "real option"
  to_cameraEase :: "string option"
  to_rotationEase :: "string option"
  to_bloomTransition :: "bool option"
  to_audioTransition :: "bool option"

definition no_options :: transition_options where
  "no_options =
     \<lparr>to_duration = None, to_cameraEase = None, to_rotationEase = None,
      to_bloomTransition = None, to_audioTransition = None\<rparr>"

text \<open>\<open>{ ...settings, ...customOptions }\<close>\<close>

definition merge_options :: "transition_settings \<Rightarrow> transition_options \<Rightarrow> transition_settings" where
  "merge_options settings customOptions =
     \<lparr>ts_duration = if_defined (to_duration customOptions) (ts_duration settings),
      ts_cameraEase = if_defined (to_cameraEase customOptions) (ts_cameraEase settings),
      ts_rotationEase = if_defined (to_rotationEase customOptions) (ts_rotationEase settings),
      ts_bloomTransition = if_defined (to_bloomTransition customOptions) (ts_bloomTransition settings),
      ts_audioTransition = if_defined (to_audioTransition customOptions) (ts_audioTransition settings)\<rparr>"

text \<open>
  The master timeline of one section transition, by its children: the camera timeline,
  the carousel's rotation tween, the bloom tweens (the strength they return to) and the
  audio timeline.
\<close>

record master_timeline =
  mt_section :: string
  mt_camera :: "nat option"
  mt_carousel :: "tween option"
  mt_bloom :: "real option"
  mt_audio :: bool

text \<open>
  The closure state of \<open>createTransitionController\<close> with the controllers it was
  given. Of the post-processing controller the model keeps the strength of its bloom pass
  (\<open>None\<close>: no controller, or no bloom pass); of the audio controller, whether there is
  one. \<open>activeTransitions\<close> holds the non-GSAP transitions, by the section they were
  created for.
\<close>

record transition_controller =
  currentState :: transition_state
  activeTransitions :: "string list"
  activeTimelines :: "master_timeline list"
  previousSection :: "string option"
  targetSection :: "string option"
  tc_settings :: transition_settings
  tc_camera :: camera
  tc_carousel :: carousel
  tc_bloom :: "real option"
  tc_audio :: bool
  tc_console :: "console_entry list"

text \<open>
  \<open>createTransitionController(scene, camera, carousel, postprocessing, audio)\<close> with
  the default settings.
\<close>

definition createTransitionController ::
  "camera \<Rightarrow> carousel \<Rightarrow> real option \<Rightarrow> bool \<Rightarrow> transition_controller" where
  "createTransitionController cam car bloom audio_given =
     \<lparr>currentState = IDLE, activeTransitions = [], activeTimelines = [],
      previousSection = None, targetSection = None, tc_settings = DEFAULT_TRANSITION_SETTINGS,
      tc_camera = cam, tc_carousel = car, tc_bloom = bloom, tc_audio = audio_given,
      tc_console = []\<rparr>"

text \<open>
  \<open>clearActiveTransitions()\<close>. Killing a timeline also stops its children; the model
  does not follow them, and none exist where \<open>transitionToSection\<close> calls it: the
  list of active timelines is empty whenever the state is idle.
\<close>

definition clearActiveTransitions :: "transition_controller \<Rightarrow> transition_controller" where
  "clearActiveTransitions t = t\<lparr>activeTimelines := [], activeTransitions := []\<rparr>"

text \<open>
  \<open>createCarouselTransition\<close>: no rotation when the target is the overview.
\<close>

definition createCarouselTransition ::
  "string \<Rightarrow> transition_settings \<Rightarrow> carousel \<Rightarrow> tween option \<times> carousel" where
  "createCarouselTransition sectionName options car =
     (if sectionName = ''overview'' then (None, car)
      else rotateToSection sectionName (Some (ts_duration options)) car)"

text \<open>
  \<open>transitionController.transitionToSection(sectionName, customOptions = {})\<close>. The
  result is the master timeline of the returned transition object, or \<open>None\<close> for
  \<open>null\<close>.
\<close>

definition tc_transitionToSection ::
  "string \<Rightarrow> transition_options \<Rightarrow> transition_controller \<Rightarrow>
   master_timeline option completion \<times> transition_controller" where
  "tc_transitionToSection sectionName customOptions t =
     (if currentState t \<noteq> IDLE
      then (Returned None,
            t\<lparr>tc_console := tc_console t @ [Warn ''Transition already in progress, skipping'']\<rparr>)
      else
        let t = t\<lparr>currentState := ACTIVE, previousSection := targetSection t,
                  targetSection := Some sectionName\<rparr>;
            transitionOptions = merge_options (tc_settings t) customOptions;
            t = clearActiveTransitions t
        in case transitionToSection sectionName (Some (ts_duration transitionOptions))
                  (Some (ts_cameraEase transitionOptions)) (tc_camera t) of
             (Threw e, cam) \<Rightarrow> (Threw e, t\<lparr>tc_camera := cam\<rparr>)
           | (Returned cameraTimeline, cam) \<Rightarrow>
               (let t = t\<lparr>tc_camera := cam\<rparr>;
                    (carouselTimeline, car) =
                      createCarouselTransition sectionName transitionOptions (tc_carousel t);
                    t = t\<lparr>tc_carousel := car\<rparr>;
                    masterTimeline =
                      \<lparr>mt_section = sectionName, mt_camera = Some cameraTimeline,
                       mt_carousel = carouselTimeline,
                       mt_bloom = (if ts_bloomTransition transitionOptions then tc_bloom t else None),
                       mt_audio = (tc_audio t \<and> ts_audioTransition transitionOptions)\<rparr>
                in (Returned (Some masterTimeline),
                    t\<lparr>activeTimelines := activeTimelines t @ [masterTimeline]\<rparr>)))"

definition transitionToOverview ::
  "transition_options \<Rightarrow> transition_controller \<Rightarrow>
   master_timeline option completion \<times> transition_controller" where
  "transitionToOverview customOptions t = tc_transitionToSection ''overview'' customOptions t"

text \<open>
  A master timeline running to its end: its children have completed (the bloom strength
  is back at its value), then \<open>onComplete\<close> returns the state to idle. The
  post-processing controller has no \<open>optimizeForSection\<close> property, so the callback
  leaves it alone.
\<close>

definition completeTransition :: "master_timeline \<Rightarrow> transition_controller \<Rightarrow> transition_controller" where
  "completeTransition masterTimeline t =
     (let t = (case mt_camera masterTimeline of
                 None \<Rightarrow> t
               | Some timeline \<Rightarrow> t\<lparr>tc_camera := completeTimeline timeline (tc_camera t)\<rparr>);
          t = (case mt_carousel masterTimeline of
                 None \<Rightarrow> t
               | Some _ \<Rightarrow> t\<lparr>tc_carousel := completeRotation (tc_carousel t)\<rparr>)
      in t\<lparr>currentState := IDLE, activeTimelines := [],
           tc_console := tc_console t @
             [Log (''Transition to '' @ mt_section masterTimeline @ '' complete'')]\<rparr>)"

text \<open>
  The states the controller reaches from its creation by section transitions and by the
  completion of an active master timeline.
\<close>

inductive tc_reachable :: "transition_controller \<Rightarrow> bool" where
  created: "tc_reachable (createTransitionController cam car bloom audio_given)"
| transition: "tc_reachable t \<Longrightarrow> tc_reachable (snd (tc_transitionToSection sectionName customOptions t))"
| completed: "tc_reachable t \<Longrightarrow> masterTimeline \<in> set (activeTimelines t) \<Longrightarrow>
     tc_reachable (completeTransition masterTimeline t)"


section \<open>The asset manager (loader.js)\<close>

datatype asset_type = Texture | Model | Font | SVG | Audio

text \<open>
  A queue entry. Its \<open>options\<close> only adjust the loaded THREE object and are left
  out, as is the object itself: an asset is known by a label.
\<close>

record queue_item =
  item_type :: asset_type
  item_name :: string
  item_url :: string

type_synonym asset = string

text \<open>
  The callbacks are functions of the caller. A callback is known by a number; calling
  one appends an entry to \<open>calls\<close>, the record of all calls made so far with their
  arguments. The callbacks are taken to return without calling the manager.
\<close>

datatype callback_call =
    OnProgress nat "real option" nat nat
  | OnComplete nat
  | OnError nat asset_type string string

text \<open>
  The value of \<open>onCompleteCallback\<close>: \<open>null\<close>, a callback of the caller, or the
  closure \<open>loadAll\<close> installs, which calls the callback it replaced and then resolves
  the promise \<open>loadAll\<close> returns.
\<close>

datatype complete_callback =
    NoCallback
  | CallerCallback nat
  | LoadAllCallback nat complete_callback

text \<open>
  A promise returned by \<open>loadAll\<close>. It is fulfilled with \<open>undefined\<close> (empty
  queue) or with the object holding the manager's five asset tables, or rejected with an
  error.
\<close>

datatype promise = Pending | FulfilledUndefined | FulfilledAssets | Rejected string

text \<open>
  The manager, with what surrounds it: the promises \<open>loadAll\<close> has returned, the
  promise reactions that are queued and have not run yet (for a load that was rejected:
  the \<open>loadAll\<close> promise its \<open>.catch(reject)\<close> will reject, and the error), the
  calls made to the caller's callbacks, and the console.
\<close>

record asset_manager =
  textures :: "string \<rightharpoonup> asset"
  models :: "string \<rightharpoonup> asset"
  fonts :: "string \<rightharpoonup> asset"
  svgs :: "string \<rightharpoonup> asset"
  audio :: "string \<rightharpoonup> asset"
  loadingQueue :: "queue_item list"
  totalItems :: nat
  loadedItems :: nat
  onProgressCallback :: "nat option"
  onCompleteCallback :: complete_callback
  onErrorCallback :: "nat option"
  promises :: "promise list"
  reactions :: "(nat \<times> string) list"
  calls :: "callback_call list"
  am_console :: "console_entry list"

text \<open>\<open>new AssetManager()\<close>\<close>

definition new_AssetManager :: asset_manager where
  "new_AssetManager =
     \<lparr>textures = Map.empty, models = Map.empty, fonts = Map.empty, svgs = Map.empty,
      audio = Map.empty, loadingQueue = [], totalItems = 0, loadedItems = 0,
      onProgressCallback = None, onCompleteCallback = NoCallback, onErrorCallback = None,
      promises = [], reactions = [], calls = [], am_console = []\<rparr>"

text \<open>\<open>setCallbacks(callbacks)\<close>: each of the three may be missing.\<close>

definition setCallbacks :: "nat option \<Rightarrow> nat option \<Rightarrow> nat option \<Rightarrow> asset_manager \<Rightarrow> asset_manager" where
  "setCallbacks onProgress onComplete onError m =
     (let m = (case onProgress of None \<Rightarrow> m | Some cb \<Rightarrow> m\<lparr>onProgressCallback := Some cb\<rparr>);
          m = (case onComplete of None \<Rightarrow> m | Some cb \<Rightarrow> m\<lparr>onCompleteCallback := CallerCallback cb\<rparr>)
      in (case onError of None \<Rightarrow> m | Some cb \<Rightarrow> m\<lparr>onErrorCallback := Some cb\<rparr>))"

text \<open>Settling a promise: only a pending promise changes.\<close>

definition settle_promise :: "nat \<Rightarrow> promise \<Rightarrow> asset_manager \<Rightarrow> asset_manager" where
  "settle_promise p outcome m =
     (if p < length (promises m) \<and> promises m ! p = Pending
      then m\<lparr>promises := (promises m)[p := outcome]\<rparr> else m)"

text \<open>Calling the function stored in \<open>onCompleteCallback\<close>.\<close>

fun call_complete :: "complete_callback \<Rightarrow> asset_manager \<Rightarrow> asset_manager" where
  "call_complete NoCallback m = m"
| "call_complete (CallerCallback cb) m = m\<lparr>calls := calls m @ [OnComplete cb]\<rparr>"
| "call_complete (LoadAllCallback p originalCompleteCallback) m =
     settle_promise p FulfilledAssets (call_complete originalCompleteCallback m)"

text \<open>
  \<open>updateProgress()\<close>. With no item queued the quotient is not a finite number; the
  progress is then \<open>None\<close>.
\<close>

definition updateProgress :: "asset_manager \<Rightarrow> asset_manager" where
  "updateProgress m =
     (let m = m\<lparr>loadedItems := loadedItems m + 1\<rparr>;
          progress = (if totalItems m = 0 then None
                      else Some (real (loadedItems m) / real (totalItems m) * 100));
          m = (case onProgressCallback m of
                 None \<Rightarrow> m
               | Some cb \<Rightarrow>
                   m\<lparr>calls := calls m @ [OnProgress cb progress (loadedItems m) (totalItems m)]\<rparr>)
      in if loadedItems m = totalItems m \<and> onCompleteCallback m \<noteq> NoCallback
         then call_complete (onCompleteCallback m) m
         else m)"

definition asset_type_name :: "asset_type \<Rightarrow> string" where
  "asset_type_name ty =
     (case ty of Texture \<Rightarrow> ''texture'' | Model \<Rightarrow> ''model'' | Font \<Rightarrow> ''font''
      | SVG \<Rightarrow> ''svg'' | Audio \<Rightarrow> ''audio'')"

text \<open>\<open>handleError(assetType, url, error)\<close>\<close>

definition handleError :: "asset_type \<Rightarrow> string \<Rightarrow> string \<Rightarrow> asset_manager \<Rightarrow> asset_manager" where
  "handleError assetType url error m =
     (let m = m\<lparr>am_console := am_console m @
                  [Error (''Error loading '' @ asset_type_name assetType @ '': '' @ url)]\<rparr>;
          m = (case onErrorCallback m of
                 None \<Rightarrow> m
               | Some cb \<Rightarrow> m\<lparr>calls := calls m @ [OnError cb assetType url error]\<rparr>)
      in updateProgress m)"

text \<open>
  The five \<open>queue...\<close> methods differ in the type they record.
\<close>

definition queue_asset :: "asset_type \<Rightarrow> string \<Rightarrow> string \<Rightarrow> asset_manager \<Rightarrow> asset_manager" where
  "queue_asset ty name url m =
     m\<lparr>loadingQueue := loadingQueue m @ [\<lparr>item_type = ty, item_name = name, item_url = url\<rparr>],
       totalItems := totalItems m + 1\<rparr>"

definition queueTexture :: "string \<Rightarrow> string \<Rightarrow> asset_manager \<Rightarrow> asset_manager" where
  "queueTexture = queue_asset Texture"

definition queueModel :: "string \<Rightarrow> string \<Rightarrow> asset_manager \<Rightarrow> asset_manager" where
  "queueModel = queue_asset Model"

definition queueFont :: "string \<Rightarrow> string \<Rightarrow> asset_manager \<Rightarrow> asset_manager" where
  "queueFont = queue_asset Font"

definition queueSVG :: "string \<Rightarrow> string \<Rightarrow> asset_manager \<Rightarrow> asset_manager" where
  "queueSVG = queue_asset SVG"

definition queueAudio :: "string \<Rightarrow> string \<Rightarrow> asset_manager \<Rightarrow> asset_manager" where
  "queueAudio = queue_asset Audio"

text \<open>\<open>this.textures[name] = texture\<close> and its four siblings.\<close>

definition store_asset :: "asset_type \<Rightarrow> string \<Rightarrow> asset \<Rightarrow> asset_manager \<Rightarrow> asset_manager" where
  "store_asset ty name a m =
     (case ty of
        Texture \<Rightarrow> m\<lparr>textures := (textures m)(name \<mapsto> a)\<rparr>
      | Model \<Rightarrow> m\<lparr>models := (models m)(name \<mapsto> a)\<rparr>
      | Font \<Rightarrow> m\<lparr>fonts := (fonts m)(name \<mapsto> a)\<rparr>
      | SVG \<Rightarrow> m\<lparr>svgs := (svgs m)(name \<mapsto> a)\<rparr>
      | Audio \<Rightarrow> m\<lparr>audio := (audio m)(name \<mapsto> a)\<rparr>)"

text \<open>
  What a THREE loader reports for one load started by \<open>loadAll\<close>: the asset, or an
  error.
\<close>

datatype load_result = Loaded asset | Failed string

text \<open>
  One loader callback of \<open>loadTexture\<close>, \<open>loadModel\<close>, \<open>loadFont\<close>,
  \<open>loadSVG\<close> or \<open>loadAudio\<close> for a load that the \<open>loadAll\<close> call with promise
  \<open>p\<close> started. On success the asset is stored and the progress updated; the load's
  promise is resolved, and nothing waits for that. On failure \<open>handleError\<close> runs, then
  \<open>reject(error)\<close> rejects the load's promise: the reaction of \<open>.catch(reject)\<close> is
  queued, to run when the current task has ended.
\<close>

definition loader_callback :: "nat \<Rightarrow> queue_item \<Rightarrow> load_result \<Rightarrow> asset_manager \<Rightarrow> asset_manager" where
  "loader_callback p item result m =
     (case result of
        Loaded a \<Rightarrow> updateProgress (store_asset (item_type item) (item_name item) a m)
      | Failed error \<Rightarrow>
          (let m = handleError (item_type item) (item_url item) error m
           in m\<lparr>reactions := reactions m @ [(p, error)]\<rparr>))"

text \<open>
  The end of a task: the queued reactions run in order, each rejecting its \<open>loadAll\<close>
  promise with its error.
\<close>

definition run_reactions :: "asset_manager \<Rightarrow> asset_manager" where
  "run_reactions m =
     (fold (\<lambda>(p, error). settle_promise p (Rejected error)) (reactions m) m)\<lparr>reactions := []\<rparr>"

text \<open>
  \<open>loadAll()\<close>: the result is the index of the returned promise. The loads it starts
  settle later, one \<open>Settled\<close> event each.
\<close>

definition loadAll :: "asset_manager \<Rightarrow> nat \<times> asset_manager" where
  "loadAll m =
     (if loadingQueue m = []
      then let m = call_complete (onCompleteCallback m) m
           in (length (promises m), m\<lparr>promises := promises m @ [FulfilledUndefined]\<rparr>)
      else let p = length (promises m)
           in (p, m\<lparr>promises := promises m @ [Pending],
                    onCompleteCallback := LoadAllCallback p (onCompleteCallback m)\<rparr>))"

text \<open>
  What happens after \<open>loadAll\<close> has returned, step by step: a loader reports on one of
  the loads, or the running task ends. Several loaders may report within one task (a
  loader that is asked twice for one URL answers both requests together).
\<close>

datatype loader_event = Settled queue_item load_result | TaskEnd

fun loads_settled :: "nat \<Rightarrow> loader_event list \<Rightarrow> asset_manager \<Rightarrow> asset_manager" where
  "loads_settled p [] m = m"
| "loads_settled p (Settled item result # rest) m = loads_settled p rest (loader_callback p item result m)"
| "loads_settled p (TaskEnd # rest) m = loads_settled p rest (run_reactions m)"

fun is_Settled :: "loader_event \<Rightarrow> bool" where
  "is_Settled (Settled _ _) = True"
| "is_Settled TaskEnd = False"

text \<open>
  A loading run up to the call of \<open>loadAll\<close>: a new manager, \<open>setCallbacks\<close> with
  the callbacks given, and the items queued in order.
\<close>

definition queue_items :: "queue_item list \<Rightarrow> asset_manager \<Rightarrow> asset_manager" where
  "queue_items items m =
     fold (\<lambda>item. queue_asset (item_type item) (item_name item) (item_url item)) items m"

definition queued ::
  "nat option \<Rightarrow> nat option \<Rightarrow> nat option \<Rightarrow> queue_item list \<Rightarrow> asset_manager" where
  "queued onProgress onComplete onError items =
     queue_items items (setCallbacks onProgress onComplete onError new_AssetManager)"

text \<open>Reading the record of callback calls.\<close>

fun is_OnComplete :: "callback_call \<Rightarrow> bool" where
  "is_OnComplete (OnComplete _) = True"
| "is_OnComplete _ = False"

fun is_OnProgress :: "callback_call \<Rightarrow> bool" where
  "is_OnProgress (OnProgress _ _ _ _) = True"
| "is_OnProgress _ = False"


section \<open>Properties of the carousel rotation\<close>


lemma js_mod_small: "\<bar>a\<bar> < b \<Longrightarrow> js_mod (Num a) (Num b) = Num a"
proof -
  assume h: "\<bar>a\<bar> < b"
  then have b: "0 < b" by linarith
  have "js_trunc (a / b) = 0"
  proof (cases "0 \<le> a")
    case True
    with h b have "0 \<le> a / b" "a / b < 1" by simp_all
    then show ?thesis by (simp add: js_trunc_def floor_eq_iff)
  next
    case False
    with h b have "a / b < 0" "- 1 < a / b" by (simp_all add: field_simps)
    then show ?thesis by (simp add: js_trunc_def ceiling_eq_iff)
  qed
  with b show ?thesis by simp
qed

lemma js_mod_once: "0 \<le> a \<Longrightarrow> a < b \<Longrightarrow> js_mod (Num (a + b)) (Num b) = Num a"
proof -
  assume a: "0 \<le> a" and ab: "a < b"
  then have b: "0 < b" by linarith
  have q: "0 \<le> a / b" "a / b < 1" using a ab b by simp_all
  have "(a + b) / b = a / b + 1" using b by (simp add: field_simps)
  then have "js_trunc ((a + b) / b) = 1"
    using q by (simp add: js_trunc_def floor_eq_iff)
  then show ?thesis using b by simp
qed


lemma js_mod_full_turn: "js_mod (Num (2 * pi)) (Num (pi * 2)) = Num 0"
proof -
  have "js_mod (Num (0 + pi * 2)) (Num (pi * 2)) = Num 0"
    by (rule js_mod_once) simp_all
  then show ?thesis by (simp add: mult.commute)
qed

lemma js_mod_turn_and_quarter: "js_mod (Num (5 * pi / 2)) (Num (pi * 2)) = Num (pi / 2)"
proof -
  have "js_mod (Num (pi / 2 + pi * 2)) (Num (pi * 2)) = Num (pi / 2)"
    by (rule js_mod_once) simp_all
  moreover have "pi / 2 + pi * 2 = 5 * pi / 2" by simp
  ultimately show ?thesis by (simp only:)
qed

text \<open>\<open>rotateTo\<close> once the two remainders are known.\<close>

lemma rotateTo_accepted:
  assumes "\<not> isLocked s" "\<not> isAnimating s"
    and "js_mod (rotation s) (Num (pi * 2)) = Num c"
    and "js_mod targetAngle (Num (pi * 2)) = Num n"
    and "n' = (if pi < \<bar>n - c\<bar> then (if 0 < n - c then n - pi * 2 else n + pi * 2) else n)"
  shows "rotateTo targetAngle None s =
           (Some \<lparr>tw_to = Num n', tw_duration = rotationDuration s\<rparr>,
            s\<lparr>targetRotation := Num n', isAnimating := True,
              rotationTween := Some \<lparr>tw_to = Num n', tw_duration = rotationDuration s\<rparr>\<rparr>)"
  using assms by (simp add: rotateTo_def Let_def del: js_mod.simps)

text \<open>A quarter turn to the left inside the first turn is taken as requested.\<close>

lemma rotateTo_quarter:
  assumes "\<not> isLocked s" "\<not> isAnimating s" "rotation s = Num r" "0 \<le> r" "r < 3 * pi / 2"
  shows "rotateTo (Num (r + pi / 2)) None s =
           (Some \<lparr>tw_to = Num (r + pi / 2), tw_duration = rotationDuration s\<rparr>,
            s\<lparr>targetRotation := Num (r + pi / 2), isAnimating := True,
              rotationTween := Some \<lparr>tw_to = Num (r + pi / 2), tw_duration = rotationDuration s\<rparr>\<rparr>)"
proof (rule rotateTo_accepted [OF assms(1,2)])
  have "\<bar>r\<bar> < pi * 2" "\<bar>r + pi / 2\<bar> < pi * 2" using assms(4,5) by simp_all
  then show "js_mod (rotation s) (Num (pi * 2)) = Num r"
    and "js_mod (Num (r + pi / 2)) (Num (pi * 2)) = Num (r + pi / 2)"
    by (simp_all only: js_mod_small assms(3))
  show "r + pi / 2 = (if pi < \<bar>r + pi / 2 - r\<bar>
          then (if 0 < r + pi / 2 - r then r + pi / 2 - pi * 2 else r + pi / 2 + pi * 2)
          else r + pi / 2)"
    by simp
qed

text \<open>The fourth quarter turn ends at a full turn.\<close>

lemma rotateTo_fourth_quarter:
  assumes "\<not> isLocked s" "\<not> isAnimating s" "rotation s = Num (3 * pi / 2)"
  shows "rotateTo (Num (2 * pi)) None s =
           (Some \<lparr>tw_to = Num (2 * pi), tw_duration = rotationDuration s\<rparr>,
            s\<lparr>targetRotation := Num (2 * pi), isAnimating := True,
              rotationTween := Some \<lparr>tw_to = Num (2 * pi), tw_duration = rotationDuration s\<rparr>\<rparr>)"
proof (rule rotateTo_accepted [OF assms(1,2)])
  have "\<bar>3 * pi / 2\<bar> < pi * 2" by simp
  then show "js_mod (rotation s) (Num (pi * 2)) = Num (3 * pi / 2)"
    by (simp only: js_mod_small assms(3))
  show "js_mod (Num (2 * pi)) (Num (pi * 2)) = Num 0" by (rule js_mod_full_turn)
  show "2 * pi = (if pi < \<bar>0 - 3 * pi / 2\<bar>
          then (if 0 < 0 - 3 * pi / 2 then 0 - pi * 2 else 0 + pi * 2) else 0)"
    by simp
qed

text \<open>From a full turn, the next quarter turn is taken three quarters backwards.\<close>

lemma rotateTo_fifth_quarter:
  assumes "\<not> isLocked s" "\<not> isAnimating s" "rotation s = Num (2 * pi)"
  shows "rotateTo (Num (5 * pi / 2)) None s =
           (Some \<lparr>tw_to = Num (pi / 2), tw_duration = rotationDuration s\<rparr>,
            s\<lparr>targetRotation := Num (pi / 2), isAnimating := True,
              rotationTween := Some \<lparr>tw_to = Num (pi / 2), tw_duration = rotationDuration s\<rparr>\<rparr>)"
proof (rule rotateTo_accepted [OF assms(1,2)])
  show "js_mod (rotation s) (Num (pi * 2)) = Num 0"
    by (simp only: assms(3) js_mod_full_turn)
  show "js_mod (Num (5 * pi / 2)) (Num (pi * 2)) = Num (pi / 2)"
    by (rule js_mod_turn_and_quarter)
  show "pi / 2 = (if pi < \<bar>pi / 2 - 0\<bar>
          then (if 0 < pi / 2 - 0 then pi / 2 - pi * 2 else pi / 2 + pi * 2) else pi / 2)"
    by simp
qed

lemma arrow_left_carousel:
  assumes "\<not> in_isTransitioning c"
  shows "ctl_carousel (arrow_left_completed c) =
           completeRotation
             (snd (rotateTo (js_add (rotation (ctl_carousel c)) (Num (pi / 2))) None (ctl_carousel c)))"
    and "in_isTransitioning (arrow_left_completed c) = in_isTransitioning c"
  using assms
  by (simp_all add: arrow_left_completed_def onKeyDown_def handleArrowNavigation_def
      controls_completeRotation_def getRotation_def Let_def)


lemma at_rest_0: "createCarousel = at_rest 0"
  by (simp add: at_rest_def createCarousel_def)

lemma quarter_from_rest:
  assumes "0 \<le> r" "r < 3 * pi / 2"
  shows "completeRotation (snd (rotateTo (js_add (rotation (at_rest r)) (Num (pi / 2))) None (at_rest r)))
           = at_rest (r + pi / 2)"
proof -
  have "rotateTo (Num (r + pi / 2)) None (at_rest r) =
           (Some \<lparr>tw_to = Num (r + pi / 2), tw_duration = rotationDuration (at_rest r)\<rparr>,
            (at_rest r)\<lparr>targetRotation := Num (r + pi / 2), isAnimating := True,
              rotationTween := Some \<lparr>tw_to = Num (r + pi / 2), tw_duration = rotationDuration (at_rest r)\<rparr>\<rparr>)"
    by (rule rotateTo_quarter) (use assms in \<open>simp_all add: at_rest_def createCarousel_def\<close>)
  then show ?thesis
    by (simp add: completeRotation_def at_rest_def createCarousel_def)
qed

lemma fourth_quarter_from_rest:
  "completeRotation (snd (rotateTo (js_add (rotation (at_rest (3 * pi / 2))) (Num (pi / 2))) None
      (at_rest (3 * pi / 2)))) = at_rest (2 * pi)"
proof -
  have "rotateTo (Num (2 * pi)) None (at_rest (3 * pi / 2)) =
           (Some \<lparr>tw_to = Num (2 * pi), tw_duration = rotationDuration (at_rest (3 * pi / 2))\<rparr>,
            (at_rest (3 * pi / 2))\<lparr>targetRotation := Num (2 * pi), isAnimating := True,
              rotationTween := Some \<lparr>tw_to = Num (2 * pi), tw_duration = rotationDuration (at_rest (3 * pi / 2))\<rparr>\<rparr>)"
    by (rule rotateTo_fourth_quarter) (simp_all add: at_rest_def createCarousel_def)
  moreover have "js_add (rotation (at_rest (3 * pi / 2))) (Num (pi / 2)) = Num (2 * pi)"
    by (simp add: at_rest_def)
  ultimately show ?thesis
    by (simp add: completeRotation_def at_rest_def createCarousel_def)
qed

lemma four_presses:
  assumes "\<not> in_isTransitioning c" "ctl_carousel c = createCarousel"
  shows "ctl_carousel (arrow_left_completed c) = at_rest (pi / 2)"
    and "ctl_carousel (arrow_left_completed (arrow_left_completed c)) = at_rest pi"
    and "ctl_carousel (arrow_left_completed (arrow_left_completed (arrow_left_completed c))) = at_rest (3 * pi / 2)"
    and "ctl_carousel (arrow_left_completed (arrow_left_completed (arrow_left_completed (arrow_left_completed c)))) = at_rest (2 * pi)"
    and "\<not> in_isTransitioning (arrow_left_completed (arrow_left_completed (arrow_left_completed (arrow_left_completed c))))"
proof -
  let ?c1 = "arrow_left_completed c"
  let ?c2 = "arrow_left_completed ?c1"
  let ?c3 = "arrow_left_completed ?c2"
  let ?c4 = "arrow_left_completed ?c3"
  have t1: "\<not> in_isTransitioning ?c1" using assms(1) by (simp add: arrow_left_carousel(2))
  have t2: "\<not> in_isTransitioning ?c2" using t1 by (simp add: arrow_left_carousel(2))
  have t3: "\<not> in_isTransitioning ?c3" using t2 by (simp add: arrow_left_carousel(2))
  show t4: "\<not> in_isTransitioning ?c4" using t3 by (simp add: arrow_left_carousel(2))
  show c1: "ctl_carousel ?c1 = at_rest (pi / 2)"
    using quarter_from_rest [of 0] by (simp add: arrow_left_carousel(1) [OF assms(1)] assms(2) at_rest_0)
  show c2: "ctl_carousel ?c2 = at_rest pi"
    using quarter_from_rest [of "pi / 2"] by (simp add: arrow_left_carousel(1) [OF t1] c1)
  show c3: "ctl_carousel ?c3 = at_rest (3 * pi / 2)"
    using quarter_from_rest [of pi] by (simp add: arrow_left_carousel(1) [OF t2] c2)
  show c4: "ctl_carousel ?c4 = at_rest (2 * pi)"
    using fourth_quarter_from_rest by (simp add: arrow_left_carousel(1) [OF t3] c3)
qed

lemma js_mod_bound:
  assumes "0 < b"
  shows "\<exists>m. js_mod (Num a) (Num b) = Num m \<and> \<bar>m\<bar> < b"
proof -
  have "\<bar>a / b - of_int (js_trunc (a / b))\<bar> < 1"
    unfolding js_trunc_def by (simp split: if_splits) linarith+
  then have "b * \<bar>a / b - of_int (js_trunc (a / b))\<bar> < b * 1"
    using assms by (simp only: mult_less_cancel_left_pos)
  moreover have "b * \<bar>a / b - of_int (js_trunc (a / b))\<bar> = \<bar>a - b * of_int (js_trunc (a / b))\<bar>"
  proof -
    have "b * \<bar>a / b - of_int (js_trunc (a / b))\<bar> = \<bar>b * (a / b - of_int (js_trunc (a / b)))\<bar>"
      using assms by (simp add: abs_mult)
    also have "b * (a / b - of_int (js_trunc (a / b))) = a - b * of_int (js_trunc (a / b))"
      using assms by (simp add: right_diff_distrib)
    finally show ?thesis .
  qed
  ultimately show ?thesis using assms by simp
qed

lemma shortestArc_bounded: "\<exists>d. shortestArc (Num a) (Num b) = Num d \<and> \<bar>d\<bar> \<le> pi"
proof -
  obtain m where m: "js_mod (Num (b - a)) (Num (pi * 2)) = Num m" "\<bar>m\<bar> < pi * 2"
    using js_mod_bound [of "pi * 2" "b - a"] by auto
  then show ?thesis
    by (auto simp add: shortestArc_def Let_def simp del: js_mod.simps)
qed

text \<open>
  Claim C1: every accepted \<open>rotateTo\<close> animates to a target at most \<open>pi\<close> away from
  the carousel's current rotation, also when the rotation has accumulated beyond a full
  turn. The code compares the target with the rotation reduced by \<open>%\<close> but animates
  from the rotation itself: after four completed ArrowLeft steps from the start the
  rotation is \<open>2 * pi\<close>, and the fifth step, \<open>rotateTo(5 * pi / 2)\<close>, is accepted
  and animates to \<open>pi / 2\<close>, three quarter turns backwards. The utility
  \<open>shortestArc\<close> of the same repository stays within half a turn
  (\<open>shortestArc_bounded\<close>).
\<close>

theorem fifth_arrow_left_takes_long_way:
  "(let c4 = arrow_left_completed (arrow_left_completed (arrow_left_completed (arrow_left_completed
               (createControls createCameraSystem createCarousel))));
        s = ctl_carousel c4
    in rotation s = Num (2 * pi) \<and> \<not> isLocked s \<and> \<not> isAnimating s \<and>
       fst (rotateTo (Num (5 * pi / 2)) None s) \<noteq> None \<and>
       targetRotation (snd (rotateTo (Num (5 * pi / 2)) None s)) = Num (pi / 2) \<and>
       ctl_carousel (snd (onKeyDown ''ArrowLeft'' c4)) = snd (rotateTo (Num (5 * pi / 2)) None s) \<and>
       pi < \<bar>pi / 2 - 2 * pi\<bar>)"
proof -
  let ?c0 = "createControls createCameraSystem createCarousel"
  let ?c4 = "arrow_left_completed (arrow_left_completed (arrow_left_completed (arrow_left_completed ?c0)))"
  have h: "\<not> in_isTransitioning ?c0" "ctl_carousel ?c0 = createCarousel"
    by (simp_all add: createControls_def)
  note four = four_presses(4,5) [OF h]
  have s: "rotation (at_rest (2 * pi)) = Num (2 * pi)" "\<not> isLocked (at_rest (2 * pi))"
    "\<not> isAnimating (at_rest (2 * pi))"
    by (simp_all add: at_rest_def createCarousel_def)
  note r = rotateTo_fifth_quarter [OF s(2,3,1)]
  have k: "ctl_carousel (snd (onKeyDown ''ArrowLeft'' ?c4)) = snd (rotateTo (Num (5 * pi / 2)) None (at_rest (2 * pi)))"
    using four by (simp add: onKeyDown_def handleArrowNavigation_def getRotation_def s(1) Let_def)
  have "pi < \<bar>pi / 2 - 2 * pi\<bar>" by simp
  then show ?thesis
    unfolding Let_def four(1) k by (simp add: r s)
qed


text \<open>
  Claim C2: while the carousel is locked or animating, \<open>rotateTo\<close> and
  \<open>rotateToSection\<close> return \<open>null\<close> and leave the carousel as it is: rotation,
  target rotation, flags and the tween in flight are unchanged, and nothing is scheduled.
  Only the console can grow, by the warning of \<open>rotateToSection\<close> for an unknown
  section.
\<close>

theorem rotateTo_noop_when_locked_or_animating:
  "isLocked s \<or> isAnimating s \<Longrightarrow>
     rotateTo targetAngle duration s = (None, s) \<and>
     fst (rotateToSection sectionKey duration s) = None \<and>
     snd (rotateToSection sectionKey duration s) =
       s\<lparr>console := console (snd (rotateToSection sectionKey duration s))\<rparr>"
  by (cases "js_get SECTION_DEFINITIONS sectionKey") (auto simp add: rotateTo_def rotateToSection_def)

theorem rotateTo_noop_when_locked_or_animating_witness:
  "(isLocked (setLocked True createCarousel) \<or> isAnimating (setLocked True createCarousel)) \<and>
   rotateTo (Num 1) None (setLocked True createCarousel) = (None, setLocked True createCarousel) \<and>
   rotateToSection ''skill-planet'' None (setLocked True createCarousel) =
     (None, setLocked True createCarousel) \<and>
   (isLocked (snd (rotateToSection ''skill-planet'' None createCarousel)) \<or>
    isAnimating (snd (rotateToSection ''skill-planet'' None createCarousel))) \<and>
   rotateTo (Num 1) None (snd (rotateToSection ''skill-planet'' None createCarousel)) =
     (None, snd (rotateToSection ''skill-planet'' None createCarousel))"
proof -
  have l: "isLocked (setLocked True createCarousel) \<or> isAnimating (setLocked True createCarousel)"
    by (simp add: setLocked_def)
  have a: "isLocked (snd (rotateToSection ''skill-planet'' None createCarousel)) \<or>
           isAnimating (snd (rotateToSection ''skill-planet'' None createCarousel))"
    by (simp add: rotateToSection_def rotateTo_def js_get_def SECTION_DEFINITIONS_def
        createCarousel_def Let_def)
  have "rotateToSection ''skill-planet'' None (setLocked True createCarousel) =
     (None, setLocked True createCarousel)"
    by (simp add: rotateToSection_def rotateTo_def js_get_def SECTION_DEFINITIONS_def setLocked_def)
  then show ?thesis
    using rotateTo_noop_when_locked_or_animating [OF l, of "Num 1" None "''skill-planet''"]
      rotateTo_noop_when_locked_or_animating [OF a, of "Num 1" None "''skill-planet''"] l a
    by simp
qed

lemma rotateToSection_skill_planet:
  "rotateToSection ''skill-planet'' None createCarousel =
     (Some \<lparr>tw_to = Num (- pi), tw_duration = 12 / 10\<rparr>,
      createCarousel\<lparr>targetRotation := Num (- pi), isAnimating := True,
        rotationTween := Some \<lparr>tw_to = Num (- pi), tw_duration = 12 / 10\<rparr>\<rparr>)"
proof -
  have c: "\<not> isLocked createCarousel" "\<not> isAnimating createCarousel"
    "rotationDuration createCarousel = 12 / 10"
    by (simp_all add: createCarousel_def)
  have "\<bar>0::real\<bar> < pi * 2" "\<bar>- pi\<bar> < pi * 2" by simp_all
  then have m: "js_mod (rotation createCarousel) (Num (pi * 2)) = Num 0"
    "js_mod (Num (- pi)) (Num (pi * 2)) = Num (- pi)"
    by (simp_all only: js_mod_small createCarousel_def carousel.simps)
  have "rotateTo (Num (- pi)) None createCarousel =
     (Some \<lparr>tw_to = Num (- pi), tw_duration = rotationDuration createCarousel\<rparr>,
      createCarousel\<lparr>targetRotation := Num (- pi), isAnimating := True,
        rotationTween := Some \<lparr>tw_to = Num (- pi), tw_duration = rotationDuration createCarousel\<rparr>\<rparr>)"
    by (rule rotateTo_accepted [OF c(1,2) m]) simp
  then show ?thesis
    by (simp add: rotateToSection_def js_get_def SECTION_DEFINITIONS_def c(3))
qed

text \<open>
  Claim C7: for a section of \<open>SECTION_DEFINITIONS\<close>, \<open>rotateToSection\<close> is
  \<open>rotateTo\<close> at the negated angle of the section. Selecting \<open>skill-planet\<close>
  (angle \<open>pi\<close>) on a new carousel (rotation 0) starts a tween and sets the target
  rotation to \<open>- pi\<close>, called directly or through the transition controller.
\<close>

theorem rotateToSection_negates_angle:
  "(SECTION_DEFINITIONS sectionKey = Some angle \<longrightarrow>
      rotateToSection sectionKey duration s = rotateTo (Num (- angle)) duration s) \<and>
   SECTION_DEFINITIONS ''skill-planet'' = Some pi \<and>
   rotation createCarousel = Num 0 \<and>
   fst (rotateToSection ''skill-planet'' None createCarousel) \<noteq> None \<and>
   targetRotation (snd (rotateToSection ''skill-planet'' None createCarousel)) = Num (- pi) \<and>
   targetRotation (tc_carousel (snd (tc_transitionToSection ''skill-planet'' no_options
      (createTransitionController createCameraSystem createCarousel bloom audio_given)))) = Num (- pi)"
proof -
  have 1: "SECTION_DEFINITIONS sectionKey = Some angle \<longrightarrow>
      rotateToSection sectionKey duration s = rotateTo (Num (- angle)) duration s"
    by (simp add: rotateToSection_def js_get_def)
  have 2: "SECTION_DEFINITIONS ''skill-planet'' = Some pi" "rotation createCarousel = Num 0"
    by (simp_all add: SECTION_DEFINITIONS_def createCarousel_def)
  have d: "rotateToSection ''skill-planet'' (Some (6 / 5)) createCarousel =
           rotateToSection ''skill-planet'' None createCarousel"
    by (simp add: rotateToSection_def rotateTo_def createCarousel_def split: property.split)
  have 3: "targetRotation (tc_carousel (snd (tc_transitionToSection ''skill-planet'' no_options
      (createTransitionController createCameraSystem createCarousel bloom audio_given)))) = Num (- pi)"
    by (simp add: tc_transitionToSection_def createTransitionController_def
        createCarouselTransition_def merge_options_def no_options_def if_defined_def
        DEFAULT_TRANSITION_SETTINGS_def clearActiveTransitions_def d rotateToSection_skill_planet
        js_get_def SECTION_CAMERA_SETTINGS_def startTransition_def Let_def
        transitionToSection.simps [of "''skill-planet''"]
        split: prod.split completion.split)
  show ?thesis using 1 2 3 by (simp add: rotateToSection_skill_planet)
qed

theorem rotateToSection_negates_angle_witness:
  "SECTION_DEFINITIONS ''achievement-shelf'' = Some (pi / 2) \<and>
   rotateToSection ''achievement-shelf'' None createCarousel = rotateTo (Num (- (pi / 2))) None createCarousel"
  using rotateToSection_negates_angle [of "''achievement-shelf''" "pi / 2" None createCarousel]
  by (simp add: SECTION_DEFINITIONS_def)

text \<open>
  Two presses from the start: while the controls are not transitioning, ArrowLeft asks the
  carousel to rotate to its current rotation plus \<open>pi / 2\<close>; from a new carousel
  (rotation 0), the first press targets \<open>pi / 2\<close> and the second, after the first has
  completed, targets \<open>pi\<close>, where the carousel comes to rest.
\<close>

lemma two_arrow_left_presses:
  assumes "\<not> in_isTransitioning c"
  shows "ctl_carousel (snd (onKeyDown ''ArrowLeft'' c)) =
           snd (rotateTo (js_add (rotation (ctl_carousel c)) (Num (pi / 2))) None (ctl_carousel c)) \<and>
         (ctl_carousel c = createCarousel \<longrightarrow>
            rotation (ctl_carousel c) = Num 0 \<and>
            targetRotation (ctl_carousel (snd (onKeyDown ''ArrowLeft'' c))) = Num (pi / 2) \<and>
            \<bar>pi / 2 - 0\<bar> \<le> pi \<and>
            rotation (ctl_carousel (arrow_left_completed c)) = Num (pi / 2) \<and>
            targetRotation (ctl_carousel (snd (onKeyDown ''ArrowLeft'' (arrow_left_completed c)))) = Num pi \<and>
            \<bar>pi - pi / 2\<bar> \<le> pi \<and>
            rotation (ctl_carousel (arrow_left_completed (arrow_left_completed c))) = Num pi \<and>
            targetRotation (ctl_carousel (arrow_left_completed (arrow_left_completed c))) = Num pi \<and>
            \<not> isAnimating (ctl_carousel (arrow_left_completed (arrow_left_completed c))))"
proof -
  have key: "ctl_carousel (snd (onKeyDown ''ArrowLeft'' c)) =
           snd (rotateTo (js_add (rotation (ctl_carousel c)) (Num (pi / 2))) None (ctl_carousel c))"
    if "\<not> in_isTransitioning c" for c
    using that by (simp add: onKeyDown_def handleArrowNavigation_def getRotation_def Let_def)
  have quarter: "targetRotation (snd (rotateTo (js_add (rotation (at_rest r)) (Num (pi / 2))) None (at_rest r)))
      = Num (r + pi / 2)" if "0 \<le> r" "r < 3 * pi / 2" for r
  proof -
    have "rotateTo (Num (r + pi / 2)) None (at_rest r) =
           (Some \<lparr>tw_to = Num (r + pi / 2), tw_duration = rotationDuration (at_rest r)\<rparr>,
            (at_rest r)\<lparr>targetRotation := Num (r + pi / 2), isAnimating := True,
              rotationTween := Some \<lparr>tw_to = Num (r + pi / 2), tw_duration = rotationDuration (at_rest r)\<rparr>\<rparr>)"
      by (rule rotateTo_quarter) (use that in \<open>simp_all add: at_rest_def createCarousel_def\<close>)
    then show ?thesis by (simp add: at_rest_def)
  qed
  have scenario: ?thesis if start: "ctl_carousel c = createCarousel"
  proof -
    note p = four_presses(1,2) [OF assms start]
    have t1: "\<not> in_isTransitioning (arrow_left_completed c)"
      using assms by (simp add: arrow_left_carousel(2))
    have a: "targetRotation (ctl_carousel (snd (onKeyDown ''ArrowLeft'' c))) = Num (pi / 2)"
      using quarter [of 0] by (simp add: key [OF assms] start at_rest_0)
    have b: "targetRotation (ctl_carousel (snd (onKeyDown ''ArrowLeft'' (arrow_left_completed c)))) = Num pi"
      using quarter [of "pi / 2"] by (simp add: key [OF t1] p(1))
    have r: "rotation (at_rest x) = Num x" "targetRotation (at_rest x) = Num x"
      "\<not> isAnimating (at_rest x)" for x
      by (simp_all add: at_rest_def createCarousel_def)
    show ?thesis using key [OF assms] a b by (simp add: p r) (simp add: start at_rest_0 r)
  qed
  show ?thesis
  proof (cases "ctl_carousel c = createCarousel")
    case True
    then show ?thesis by (rule scenario)
  next
    case False
    then show ?thesis using key [OF assms] by simp
  qed
qed

text \<open>
  Inside the first turn a completed press is a quarter turn: from rest at \<open>r\<close> with
  \<open>0 \<le> r < 3 * pi / 2\<close> the carousel comes to rest at \<open>r + pi / 2\<close>.
\<close>

lemma arrow_left_within_first_turn:
  assumes "\<not> in_isTransitioning c" "ctl_carousel c = at_rest r" "0 \<le> r" "r < 3 * pi / 2"
  shows "ctl_carousel (arrow_left_completed c) = at_rest (r + pi / 2)"
  using quarter_from_rest [OF assms(3,4)] by (simp add: arrow_left_carousel(1) [OF assms(1)] assms(2))

text \<open>
  Claim C8: with no transition in progress, ArrowLeft steps the carousel by one quarter
  turn, \<open>pi / 2\<close> added to the current rotation. The code does so inside the first turn
  only. On a carousel that has been turned by \<open>rotate(2 * pi)\<close>, idle and unlocked, the
  press is accepted, targets \<open>pi / 2\<close> and takes the rotation from \<open>2 * pi\<close> to
  \<open>pi / 2\<close>: a step of \<open>- 3 * pi / 2\<close>.
\<close>

theorem arrow_left_from_full_turn_steps_back:
  "(let c = createControls createCameraSystem (rotate_carousel (Num (2 * pi)) createCarousel);
        pressed = snd (onKeyDown ''ArrowLeft'' c);
        done = controls_completeRotation pressed
    in \<not> in_isTransitioning c \<and> in_activeSection c = None \<and>
       \<not> isLocked (ctl_carousel c) \<and> \<not> isAnimating (ctl_carousel c) \<and>
       rotation (ctl_carousel c) = Num (2 * pi) \<and>
       rotationTween (ctl_carousel pressed) = Some \<lparr>tw_to = Num (pi / 2), tw_duration = 12 / 10\<rparr> \<and>
       targetRotation (ctl_carousel pressed) = Num (pi / 2) \<and>
       rotation (ctl_carousel done) = Num (pi / 2) \<and>
       pi / 2 - 2 * pi = - (3 * pi / 2) \<and>
       pi / 2 - 2 * pi \<noteq> pi / 2)"
proof -
  let ?s = "rotate_carousel (Num (2 * pi)) createCarousel"
  let ?c = "createControls createCameraSystem ?s"
  have s: "\<not> isLocked ?s" "\<not> isAnimating ?s" "rotation ?s = Num (2 * pi)"
    "rotationDuration ?s = 12 / 10"
    by (simp_all add: rotate_carousel_def createCarousel_def)
  have c: "\<not> in_isTransitioning ?c" "in_activeSection ?c = None" "ctl_carousel ?c = ?s"
    by (simp_all add: createControls_def)
  note r = rotateTo_fifth_quarter [OF s(1,2,3)]
  have k: "ctl_carousel (snd (onKeyDown ''ArrowLeft'' ?c)) = snd (rotateTo (Num (5 * pi / 2)) None ?s)"
    by (simp add: onKeyDown_def handleArrowNavigation_def getRotation_def c s(3) Let_def)
  have d: "ctl_carousel (controls_completeRotation (snd (onKeyDown ''ArrowLeft'' ?c))) =
           completeRotation (snd (rotateTo (Num (5 * pi / 2)) None ?s))"
    by (simp add: controls_completeRotation_def k)
  have a: "pi / 2 - 2 * pi = - (3 * pi / 2)" "pi / 2 - 2 * pi \<noteq> pi / 2" by simp_all
  show ?thesis
    unfolding Let_def d k c(3) r using s c(1,2) a by (simp add: completeRotation_def)
qed


section \<open>Properties of the transition controller\<close>


lemma tc_transitionToSection_rejected:
  "currentState t \<noteq> IDLE \<Longrightarrow>
     tc_transitionToSection sectionName customOptions t =
       (Returned None,
        t\<lparr>tc_console := tc_console t @ [Warn ''Transition already in progress, skipping'']\<rparr>)"
  by (simp add: tc_transitionToSection_def)

lemma tc_transitionToSection_idle_timelines:
  assumes "currentState t = IDLE"
  shows "length (activeTimelines (snd (tc_transitionToSection sectionName customOptions t))) \<le> 1 \<and>
         currentState (snd (tc_transitionToSection sectionName customOptions t)) = ACTIVE"
proof -
  define t1 where "t1 = clearActiveTransitions (t\<lparr>currentState := ACTIVE, previousSection := targetSection t,
                  targetSection := Some sectionName\<rparr>)"
  define opts where "opts = merge_options (tc_settings t) customOptions"
  obtain r cam where cam: "transitionToSection sectionName (Some (ts_duration opts))
                  (Some (ts_cameraEase opts)) (tc_camera t1) = (r, cam)"
    by (cases "transitionToSection sectionName (Some (ts_duration opts))
                  (Some (ts_cameraEase opts)) (tc_camera t1)")
  obtain tw car where car: "createCarouselTransition sectionName opts (tc_carousel t1) = (tw, car)"
    by (cases "createCarouselTransition sectionName opts (tc_carousel t1)")
  have t1: "activeTimelines t1 = []" "currentState t1 = ACTIVE"
    by (simp_all add: t1_def clearActiveTransitions_def)
  have unfold: "tc_transitionToSection sectionName customOptions t =
     (case r of
        Threw e \<Rightarrow> (Threw e, t1\<lparr>tc_camera := cam\<rparr>)
      | Returned cameraTimeline \<Rightarrow>
          (Returned (Some \<lparr>mt_section = sectionName, mt_camera = Some cameraTimeline,
                       mt_carousel = tw,
                       mt_bloom = (if ts_bloomTransition opts then tc_bloom t else None),
                       mt_audio = (tc_audio t \<and> ts_audioTransition opts)\<rparr>),
           t1\<lparr>tc_camera := cam, tc_carousel := car,
              activeTimelines := [\<lparr>mt_section = sectionName, mt_camera = Some cameraTimeline,
                       mt_carousel = tw,
                       mt_bloom = (if ts_bloomTransition opts then tc_bloom t else None),
                       mt_audio = (tc_audio t \<and> ts_audioTransition opts)\<rparr>]\<rparr>))"
    using assms cam car
    unfolding tc_transitionToSection_def t1_def opts_def Let_def clearActiveTransitions_def
    by (simp split: completion.split)
  show ?thesis unfolding unfold using t1 by (cases r) simp_all
qed

lemma tc_reachable_invariant:
  "tc_reachable t \<Longrightarrow>
     length (activeTimelines t) \<le> 1 \<and> (currentState t = IDLE \<longrightarrow> activeTimelines t = [])"
proof (induction rule: tc_reachable.induct)
  case (created cam car bloom audio_given)
  show ?case by (simp add: createTransitionController_def)
next
  case (transition t sectionName customOptions)
  show ?case
  proof (cases "currentState t = IDLE")
    case True
    from tc_transitionToSection_idle_timelines [OF this] show ?thesis by simp
  next
    case False
    with transition.IH show ?thesis by (simp add: tc_transitionToSection_rejected)
  qed
next
  case (completed t masterTimeline)
  show ?case by (simp add: completeTransition_def Let_def split: option.split)
qed

text \<open>
  Claim C3: while the transition controller is not idle, \<open>transitionToSection\<close> logs a
  warning and returns \<open>null\<close>; the state, the previous and the target section, the
  active timelines and the camera and carousel controllers stay as they are, so the
  request is dropped, not queued. In every state the controller reaches there is at most
  one active master timeline.
\<close>

theorem one_transition_at_a_time:
  "(currentState t \<noteq> IDLE \<longrightarrow>
      tc_transitionToSection sectionName customOptions t =
        (Returned None,
         t\<lparr>tc_console := tc_console t @ [Warn ''Transition already in progress, skipping'']\<rparr>)) \<and>
   (tc_reachable t \<longrightarrow> length (activeTimelines t) \<le> 1)"
  using tc_transitionToSection_rejected tc_reachable_invariant by blast

theorem one_transition_at_a_time_witness:
  "(let t = snd (tc_transitionToSection ''skill-planet'' no_options
                  (createTransitionController createCameraSystem createCarousel None False))
    in currentState t \<noteq> IDLE \<and> tc_reachable t \<and>
       fst (tc_transitionToSection ''chill-zone'' no_options t) = Returned None \<and>
       targetSection (snd (tc_transitionToSection ''chill-zone'' no_options t)) = targetSection t \<and>
       activeTimelines (snd (tc_transitionToSection ''chill-zone'' no_options t)) = activeTimelines t \<and>
       length (activeTimelines t) \<le> 1)"
proof -
  let ?t = "snd (tc_transitionToSection ''skill-planet'' no_options
                  (createTransitionController createCameraSystem createCarousel None False))"
  have "currentState (createTransitionController createCameraSystem createCarousel None False) = IDLE"
    by (simp add: createTransitionController_def)
  from tc_transitionToSection_idle_timelines [OF this]
  have a: "currentState ?t \<noteq> IDLE" by simp
  have r: "tc_reachable ?t" by (intro tc_reachable.intros)
  show ?thesis
    using one_transition_at_a_time [of ?t "''chill-zone''" no_options] a r
    by (simp add: Let_def)
qed


section \<open>Properties of the camera system and of unknown sections\<close>


lemma transitionToSection_own:
  assumes "SECTION_CAMERA_SETTINGS sectionName = Some preset"
  shows "transitionToSection sectionName duration easing cam =
           startTransition sectionName (Own preset)
             (case duration of None \<Rightarrow> 2 | Some d \<Rightarrow> d)
             (case easing of None \<Rightarrow> ''power2.inOut'' | Some e \<Rightarrow> e) cam"
  using assms by (subst transitionToSection.simps) (simp add: js_get_def Let_def)

lemma startTransition_completed:
  assumes "startTransition sectionName (Own preset) duration easing cam = (r, cam')"
  shows "r = Returned (length (cam_timelines cam))"
    and "cam_position (completeTimeline (length (cam_timelines cam)) cam') = cp_position preset"
    and "oc_target (cam_controls (completeTimeline (length (cam_timelines cam)) cam')) = cp_lookAt preset"
    and "cp_orbitControls preset = Some settings \<Longrightarrow>
         cam_controls (completeTimeline (length (cam_timelines cam)) cam') =
           (configureOrbitControls settings (cam_controls cam))
             \<lparr>oc_enabled := \<not> cam_isLocked cam, oc_target := cp_lookAt preset\<rparr>"
  using assms
  by (auto simp add: startTransition_def completeTimeline_def Let_def apply_tween_def
      cameraOnComplete_def configureOrbitControls_def split: option.splits)

lemma preset_bounds:
  assumes "SECTION_CAMERA_SETTINGS sectionName = Some preset"
  shows "\<exists>settings lo hi. cp_orbitControls preset = Some settings \<and>
           os_minDistance settings = Some lo \<and> os_maxDistance settings = Some hi"
  using assms
  by (auto simp add: SECTION_CAMERA_SETTINGS_def overview_orbit_def section_orbit_def
      no_orbit_settings_def split: if_splits)

text \<open>
  Claim C5: for every section with a camera preset, once the timeline that the camera
  controller's \<open>transitionToSection\<close> returns has run to its end, the camera position and
  the look-at target of the orbit controls are the preset's \<open>position\<close> and
  \<open>lookAt\<close>, and the controls' \<open>minDistance\<close> and \<open>maxDistance\<close> are the bounds of
  the preset's \<open>orbitControls\<close>. The end values are reached exactly.
\<close>

theorem camera_transition_reaches_preset:
  assumes "SECTION_CAMERA_SETTINGS sectionName = Some preset"
    and "transitionToSection sectionName duration easing cam = (r, cam')"
  shows "(let timeline = length (cam_timelines cam); done = completeTimeline timeline cam'
          in r = Returned timeline \<and>
             cam_position done = cp_position preset \<and>
             oc_target (cam_controls done) = cp_lookAt preset \<and>
             Option.bind (cp_orbitControls preset) os_minDistance =
               Some (oc_minDistance (cam_controls done)) \<and>
             Option.bind (cp_orbitControls preset) os_maxDistance =
               Some (oc_maxDistance (cam_controls done)))"
proof -
  from assms have s: "startTransition sectionName (Own preset)
             (case duration of None \<Rightarrow> 2 | Some d \<Rightarrow> d)
             (case easing of None \<Rightarrow> ''power2.inOut'' | Some e \<Rightarrow> e) cam = (r, cam')"
    by (simp add: transitionToSection_own)
  obtain settings lo hi where b: "cp_orbitControls preset = Some settings"
    "os_minDistance settings = Some lo" "os_maxDistance settings = Some hi"
    using preset_bounds [OF assms(1)] by blast
  note c = startTransition_completed [OF s]
  have "oc_minDistance (cam_controls (completeTimeline (length (cam_timelines cam)) cam')) = lo"
    "oc_maxDistance (cam_controls (completeTimeline (length (cam_timelines cam)) cam')) = hi"
    using b by (simp_all add: c(4) [OF b(1)] configureOrbitControls_def if_defined_def)
  then show ?thesis using c(1,2,3) b by (simp add: Let_def)
qed

theorem camera_transition_reaches_preset_witness:
  "SECTION_CAMERA_SETTINGS ''skill-planet'' =
     Some \<lparr>cp_position = \<lparr>vx = 12, vy = 5, vz = 0\<rparr>, cp_lookAt = \<lparr>vx = 12, vy = 5, vz = - 5\<rparr>,
           cp_fov = 60, cp_orbitControls = Some section_orbit\<rparr> \<and>
   (let started = transitionToSection ''skill-planet'' None None createCameraSystem;
        done = completeTimeline 0 (snd started)
    in fst started = Returned 0 \<and>
       cam_position done = \<lparr>vx = 12, vy = 5, vz = 0\<rparr> \<and>
       oc_target (cam_controls done) = \<lparr>vx = 12, vy = 5, vz = - 5\<rparr> \<and>
       oc_minDistance (cam_controls done) = 5 \<and>
       oc_maxDistance (cam_controls done) = 15)"
proof -
  have p: "SECTION_CAMERA_SETTINGS ''skill-planet'' =
     Some \<lparr>cp_position = \<lparr>vx = 12, vy = 5, vz = 0\<rparr>, cp_lookAt = \<lparr>vx = 12, vy = 5, vz = - 5\<rparr>,
           cp_fov = 60, cp_orbitControls = Some section_orbit\<rparr>"
    by (simp add: SECTION_CAMERA_SETTINGS_def)
  have t: "transitionToSection ''skill-planet'' None None createCameraSystem =
     (fst (transitionToSection ''skill-planet'' None None createCameraSystem),
      snd (transitionToSection ''skill-planet'' None None createCameraSystem))"
    by simp
  have e: "length (cam_timelines createCameraSystem) = 0" by (simp add: createCameraSystem_def)
  show ?thesis
    using camera_transition_reaches_preset [OF p t] p
    by (simp add: Let_def e section_orbit_def no_orbit_settings_def)
qed

lemma transitionToSection_undefined:
  assumes "js_get SECTION_CAMERA_SETTINGS sectionName = Undefined"
  shows "transitionToSection sectionName duration easing cam =
           transitionToSection ''overview''
             (Some (case duration of None \<Rightarrow> 2 | Some d \<Rightarrow> d))
             (Some (case easing of None \<Rightarrow> ''power2.inOut'' | Some e \<Rightarrow> e))
             (cam\<lparr>cam_console := cam_console cam @
                [Warn (''Section \"'' @ sectionName @ ''\" not found, transitioning to overview'')]\<rparr>)"
  using assms by (subst transitionToSection.simps) (simp add: Let_def)

lemma overview_preset:
  "SECTION_CAMERA_SETTINGS ''overview'' =
     Some \<lparr>cp_position = \<lparr>vx = 0, vy = 15, vz = 30\<rparr>, cp_lookAt = \<lparr>vx = 0, vy = 0, vz = 0\<rparr>,
           cp_fov = 75, cp_orbitControls = Some overview_orbit\<rparr>"
  by (simp add: SECTION_CAMERA_SETTINGS_def)

text \<open>
  A name that objects inherit from \<open>Object.prototype\<close> is not a section, yet its lookup
  in the preset table is truthy: the camera controller does not fall back and throws.
\<close>

lemma transitionToSection_inherited_throws:
  "fst (transitionToSection ''constructor'' None None createCameraSystem) = Threw TypeError"
  by (subst transitionToSection.simps)
    (simp add: js_get_def SECTION_CAMERA_SETTINGS_def object_prototype_keys_def
      startTransition_def Let_def)

text \<open>
  Claim C6, as stated, fails for the carousel: \<open>moon-base\<close> is in neither table,
  and \<open>rotateToSection\<close> answers it with a warning and \<open>null\<close>. No tween is started
  and the carousel does not move towards any overview position; the carousel has no
  overview entry to fall back to.
\<close>

theorem rotateToSection_unknown_no_fallback:
  "js_get SECTION_DEFINITIONS ''moon-base'' = Undefined \<and>
   js_get SECTION_CAMERA_SETTINGS ''moon-base'' = Undefined \<and>
   rotateToSection ''moon-base'' None createCarousel =
     (None, createCarousel\<lparr>console := console createCarousel @
        [Warn ''Section \"moon-base\" not found'']\<rparr>) \<and>
   rotationTween (snd (rotateToSection ''moon-base'' None createCarousel)) = None \<and>
   js_get SECTION_DEFINITIONS ''overview'' = Undefined"
  by (simp add: rotateToSection_def js_get_def SECTION_DEFINITIONS_def
      SECTION_CAMERA_SETTINGS_def object_prototype_keys_def createCarousel_def)

text \<open>
  Claim C6, amended: for an identifier that is neither a key of the table nor a name
  inherited from \<open>Object.prototype\<close>, neither call throws. The camera controller's
  \<open>transitionToSection\<close> logs a warning and is the transition to \<open>overview\<close>: it
  returns that transition, the current section becomes \<open>overview\<close>, and on completion
  the camera is at the overview preset. The carousel's \<open>rotateToSection\<close> logs a warning
  and returns \<open>null\<close>, leaving the carousel as it is.
\<close>

theorem unknown_section_handling:
  "(js_get SECTION_CAMERA_SETTINGS sectionName = Undefined \<longrightarrow>
      (let warned = cam\<lparr>cam_console := cam_console cam @
              [Warn (''Section \"'' @ sectionName @ ''\" not found, transitioning to overview'')]\<rparr>;
           started = transitionToSection sectionName duration easing cam;
           done = completeTimeline (length (cam_timelines cam)) (snd started)
       in started = transitionToSection ''overview''
                      (Some (case duration of None \<Rightarrow> 2 | Some d \<Rightarrow> d))
                      (Some (case easing of None \<Rightarrow> ''power2.inOut'' | Some e \<Rightarrow> e)) warned \<and>
          fst started = Returned (length (cam_timelines cam)) \<and>
          cam_currentSection (snd started) = ''overview'' \<and>
          cam_console (snd started) = cam_console warned \<and>
          cam_position done = \<lparr>vx = 0, vy = 15, vz = 30\<rparr> \<and>
          oc_target (cam_controls done) = \<lparr>vx = 0, vy = 0, vz = 0\<rparr>)) \<and>
   (js_get SECTION_DEFINITIONS sectionKey = Undefined \<longrightarrow>
      rotateToSection sectionKey rotationTime s =
        (None, s\<lparr>console := console s @ [Warn (''Section \"'' @ sectionKey @ ''\" not found'')]\<rparr>))"
proof -
  have carousel: "js_get SECTION_DEFINITIONS sectionKey = Undefined \<longrightarrow>
      rotateToSection sectionKey rotationTime s =
        (None, s\<lparr>console := console s @ [Warn (''Section \"'' @ sectionKey @ ''\" not found'')]\<rparr>)"
    by (simp add: rotateToSection_def)
  have camera: ?thesis if u: "js_get SECTION_CAMERA_SETTINGS sectionName = Undefined"
  proof -
    define warned where "warned = cam\<lparr>cam_console := cam_console cam @
              [Warn (''Section \"'' @ sectionName @ ''\" not found, transitioning to overview'')]\<rparr>"
    define d where "d = (case duration of None \<Rightarrow> 2 | Some d \<Rightarrow> d)"
    define e where "e = (case easing of None \<Rightarrow> ''power2.inOut'' | Some e \<Rightarrow> e)"
    let ?started = "transitionToSection sectionName duration easing cam"
    have f: "?started = transitionToSection ''overview'' (Some d) (Some e) warned"
      unfolding warned_def d_def e_def by (rule transitionToSection_undefined [OF u])
    have st: "startTransition ''overview''
        (Own \<lparr>cp_position = \<lparr>vx = 0, vy = 15, vz = 30\<rparr>, cp_lookAt = \<lparr>vx = 0, vy = 0, vz = 0\<rparr>,
           cp_fov = 75, cp_orbitControls = Some overview_orbit\<rparr>) d e warned = (fst ?started, snd ?started)"
      using f by (simp add: transitionToSection_own [OF overview_preset])
    note c = startTransition_completed(1,2,3) [OF st]
    have l: "length (cam_timelines warned) = length (cam_timelines cam)"
      by (simp add: warned_def)
    have "snd ?started = snd (startTransition ''overview''
        (Own \<lparr>cp_position = \<lparr>vx = 0, vy = 15, vz = 30\<rparr>, cp_lookAt = \<lparr>vx = 0, vy = 0, vz = 0\<rparr>,
           cp_fov = 75, cp_orbitControls = Some overview_orbit\<rparr>) d e warned)"
      by (simp only: st snd_conv)
    then have s: "cam_currentSection (snd ?started) = ''overview''"
      "cam_console (snd ?started) = cam_console warned"
      by (simp_all add: startTransition_def Let_def)
    show ?thesis
      using carousel f c s unfolding l Let_def warned_def [symmetric] d_def e_def by simp
  qed
  show ?thesis
  proof (cases "js_get SECTION_CAMERA_SETTINGS sectionName = Undefined")
    case True
    then show ?thesis by (rule camera)
  next
    case False
    then show ?thesis using carousel by simp
  qed
qed

theorem unknown_section_handling_witness:
  "js_get SECTION_CAMERA_SETTINGS ''moon-base'' = Undefined \<and>
   js_get SECTION_DEFINITIONS ''moon-base'' = Undefined \<and>
   fst (transitionToSection ''moon-base'' None None createCameraSystem) = Returned 0 \<and>
   cam_currentSection (snd (transitionToSection ''moon-base'' None None createCameraSystem)) = ''overview'' \<and>
   cam_console (snd (transitionToSection ''moon-base'' None None createCameraSystem)) =
     [Warn ''Section \"moon-base\" not found, transitioning to overview''] \<and>
   fst (rotateToSection ''moon-base'' None createCarousel) = None"
proof -
  have u: "js_get SECTION_CAMERA_SETTINGS ''moon-base'' = Undefined"
    "js_get SECTION_DEFINITIONS ''moon-base'' = Undefined"
    by (simp_all add: js_get_def SECTION_CAMERA_SETTINGS_def SECTION_DEFINITIONS_def
        object_prototype_keys_def)
  have e: "length (cam_timelines createCameraSystem) = 0" "cam_console createCameraSystem = []"
    by (simp_all add: createCameraSystem_def)
  note h = unknown_section_handling
    [of "''moon-base''" createCameraSystem None None "''moon-base''" None createCarousel]
  from h u(1) have cam: "fst (transitionToSection ''moon-base'' None None createCameraSystem) =
        Returned (length (cam_timelines createCameraSystem))"
    "cam_currentSection (snd (transitionToSection ''moon-base'' None None createCameraSystem)) = ''overview''"
    unfolding Let_def by blast+
  from h u(1) have "cam_console (snd (transitionToSection ''moon-base'' None None createCameraSystem)) =
       cam_console (createCameraSystem\<lparr>cam_console := cam_console createCameraSystem @
         [Warn (''Section \"'' @ ''moon-base'' @ ''\" not found, transitioning to overview'')]\<rparr>)"
    unfolding Let_def by blast
  then have con: "cam_console (snd (transitionToSection ''moon-base'' None None createCameraSystem)) =
     [Warn ''Section \"moon-base\" not found, transitioning to overview'']"
    by (simp add: e)
  from h u(2) have "rotateToSection ''moon-base'' None createCarousel =
      (None, createCarousel\<lparr>console := console createCarousel @
         [Warn (''Section \"'' @ ''moon-base'' @ ''\" not found'')]\<rparr>)"
    by blast
  then have car: "fst (rotateToSection ''moon-base'' None createCarousel) = None"
    by simp
  show ?thesis using u cam con car by (simp add: e)
qed


section \<open>Properties of section selection\<close>


lemma startTransition_returns:
  "fst (startTransition sectionName (Own preset) duration easing cam) = Returned (length (cam_timelines cam))"
  "length (cam_timelines (snd (startTransition sectionName (Own preset) duration easing cam))) =
     Suc (length (cam_timelines cam))"
  by (simp_all add: startTransition_def Let_def)

lemma transitionToSection_returns:
  assumes "js_get SECTION_CAMERA_SETTINGS sectionName \<noteq> Inherited"
  shows "fst (transitionToSection sectionName duration easing cam) = Returned (length (cam_timelines cam))"
    and "length (cam_timelines (snd (transitionToSection sectionName duration easing cam))) =
           Suc (length (cam_timelines cam))"
proof -
  show "fst (transitionToSection sectionName duration easing cam) = Returned (length (cam_timelines cam))"
  proof (cases "js_get SECTION_CAMERA_SETTINGS sectionName")
    case (Own preset)
    then have "SECTION_CAMERA_SETTINGS sectionName = Some preset"
      by (simp add: js_get_def split: option.splits if_splits)
    then show ?thesis by (simp add: transitionToSection_own startTransition_returns)
  next
    case Inherited
    with assms show ?thesis by simp
  next
    case Undefined
    then show ?thesis
      by (simp add: transitionToSection_undefined transitionToSection_own [OF overview_preset]
          startTransition_returns)
  qed
  show "length (cam_timelines (snd (transitionToSection sectionName duration easing cam))) =
           Suc (length (cam_timelines cam))"
  proof (cases "js_get SECTION_CAMERA_SETTINGS sectionName")
    case (Own preset)
    then have "SECTION_CAMERA_SETTINGS sectionName = Some preset"
      by (simp add: js_get_def split: option.splits if_splits)
    then show ?thesis by (simp add: transitionToSection_own startTransition_returns)
  next
    case Inherited
    with assms show ?thesis by simp
  next
    case Undefined
    then show ?thesis
      by (simp add: transitionToSection_undefined transitionToSection_own [OF overview_preset]
          startTransition_returns)
  qed
qed

lemma selectSection_completed:
  assumes "js_get SECTION_CAMERA_SETTINGS sectionName \<noteq> Inherited"
    and "in_activeSection c \<noteq> Some sectionName"
  shows "in_activeSection (controls_completeTimeline (length (cam_timelines (ctl_camera c)))
            (snd (selectSection sectionName c))) = Some sectionName"
    and "\<not> in_isTransitioning (controls_completeTimeline (length (cam_timelines (ctl_camera c)))
            (snd (selectSection sectionName c)))"
    and "in_isTransitioning (snd (selectSection sectionName c))"
proof -
  define cam where "cam = ctl_camera c"
  obtain r cam' where t: "transitionToSection sectionName None None cam = (r, cam')"
    by (cases "transitionToSection sectionName None None cam")
  from transitionToSection_returns [OF assms(1), of None None cam] t
  have r: "r = Returned (length (cam_timelines cam))"
    and l: "length (cam_timelines cam') = Suc (length (cam_timelines cam))"
    by simp_all
  have s: "snd (selectSection sectionName c) =
     c\<lparr>ctl_console := ctl_console c @ [Log (''Selecting section: '' @ sectionName)],
       in_isTransitioning := True,
       ctl_camera := cam'\<lparr>cam_timelines := (cam_timelines cam')
          [length (cam_timelines cam) := (cam_timelines cam' ! length (cam_timelines cam))
             \<lparr>tl_onComplete := ControlsOnComplete sectionName\<rparr>]\<rparr>\<rparr>"
    using assms(2) t r by (simp add: selectSection_def Let_def cam_def)
  show "in_activeSection (controls_completeTimeline (length (cam_timelines (ctl_camera c)))
            (snd (selectSection sectionName c))) = Some sectionName"
    unfolding s cam_def [symmetric] using l by (simp add: controls_completeTimeline_def Let_def)
  show "\<not> in_isTransitioning (controls_completeTimeline (length (cam_timelines (ctl_camera c)))
            (snd (selectSection sectionName c)))"
    unfolding s cam_def [symmetric] using l by (simp add: controls_completeTimeline_def Let_def)
  show "in_isTransitioning (snd (selectSection sectionName c))"
    unfolding s by simp
qed

text \<open>
  Claim C9: selecting the section that is already active changes nothing, in the input
  controls and in the application controller alike: the call returns at once, no camera
  transition or tween is started, and the active section and the transitioning flag stay
  as they are. A section becomes active in the controls when the transition that
  \<open>selectSection\<close> started has completed, and in the application controller as soon as
  \<open>selectSection\<close> accepts it; selecting it again after that is such a call.
\<close>

theorem selecting_active_section_is_noop:
  "(in_activeSection c = Some sectionName \<longrightarrow> selectSection sectionName c = (Returned (), c)) \<and>
   (app_activeSection a = Some sectionName \<longrightarrow> app_selectSection sectionName a = (Returned (), a)) \<and>
   (js_get SECTION_CAMERA_SETTINGS sectionName \<noteq> Inherited \<longrightarrow>
      (let c' = controls_completeTimeline (length (cam_timelines (ctl_camera c)))
                  (snd (selectSection sectionName c))
       in in_activeSection c' = Some sectionName \<and> selectSection sectionName c' = (Returned (), c'))) \<and>
   (\<not> app_isTransitioning a \<and> section_camera sectionName \<noteq> None \<longrightarrow>
      (let a' = app_completeTween (snd (app_selectSection sectionName a))
       in app_activeSection a' = Some sectionName \<and> app_selectSection sectionName a' = (Returned (), a')))"
proof -
  have 1: "selectSection n c = (Returned (), c)" if "in_activeSection c = Some n" for n c
    using that by (simp add: selectSection_def)
  have 2: "app_selectSection n a = (Returned (), a)" if "app_activeSection a = Some n" for n a
    using that by (simp add: app_selectSection_def)
  have 3: "in_activeSection (controls_completeTimeline (length (cam_timelines (ctl_camera c)))
                  (snd (selectSection sectionName c))) = Some sectionName"
    if h: "js_get SECTION_CAMERA_SETTINGS sectionName \<noteq> Inherited"
  proof (cases "in_activeSection c = Some sectionName")
    case True
    then show ?thesis
      by (simp add: 1 controls_completeTimeline_def Let_def split: timeline_callback.split)
  next
    case False
    from selectSection_completed(1) [OF h this] show ?thesis .
  qed
  have 4: "app_activeSection (app_completeTween (snd (app_selectSection sectionName a))) = Some sectionName"
    if "\<not> app_isTransitioning a" "section_camera sectionName \<noteq> None"
    using that
    by (auto simp add: app_selectSection_def app_completeTween_def Let_def split: list.split)
  show ?thesis using 1 2 3 4 by (simp add: Let_def)
qed

theorem selecting_active_section_is_noop_witness:
  "js_get SECTION_CAMERA_SETTINGS ''skill-planet'' \<noteq> Inherited \<and>
   \<not> app_isTransitioning APP \<and> section_camera ''skill-planet'' \<noteq> None \<and>
   (let c1 = controls_completeTimeline 0
               (snd (selectSection ''skill-planet'' (createControls createCameraSystem createCarousel)));
        a1 = app_completeTween (snd (app_selectSection ''skill-planet'' APP))
    in in_activeSection c1 = Some ''skill-planet'' \<and>
       selectSection ''skill-planet'' c1 = (Returned (), c1) \<and>
       app_activeSection a1 = Some ''skill-planet'' \<and>
       app_selectSection ''skill-planet'' a1 = (Returned (), a1))"
proof -
  let ?c0 = "createControls createCameraSystem createCarousel"
  let ?c1 = "controls_completeTimeline 0 (snd (selectSection ''skill-planet'' ?c0))"
  let ?a1 = "app_completeTween (snd (app_selectSection ''skill-planet'' APP))"
  have h: "js_get SECTION_CAMERA_SETTINGS ''skill-planet'' \<noteq> Inherited"
    "\<not> app_isTransitioning APP" "section_camera ''skill-planet'' \<noteq> None"
    by (simp_all add: js_get_def SECTION_CAMERA_SETTINGS_def APP_def section_camera_def)
  have e: "length (cam_timelines (ctl_camera ?c0)) = 0"
    by (simp add: createControls_def createCameraSystem_def)
  from selecting_active_section_is_noop [of ?c0 "''skill-planet''" APP] h
  have first: "in_activeSection ?c1 = Some ''skill-planet''" "app_activeSection ?a1 = Some ''skill-planet''"
    unfolding e Let_def by blast+
  from selecting_active_section_is_noop [of ?c1 "''skill-planet''" ?a1] first
  have second: "selectSection ''skill-planet'' ?c1 = (Returned (), ?c1)"
    "app_selectSection ''skill-planet'' ?a1 = (Returned (), ?a1)"
    by blast+
  show ?thesis unfolding Let_def using h first second by blast
qed


section \<open>Properties of the asset manager\<close>


lemma queue_items_fields:
  "loadingQueue (queue_items items m) = loadingQueue m @ items"
  "totalItems (queue_items items m) = totalItems m + length items"
  "loadedItems (queue_items items m) = loadedItems m"
  "onProgressCallback (queue_items items m) = onProgressCallback m"
  "onCompleteCallback (queue_items items m) = onCompleteCallback m"
  "onErrorCallback (queue_items items m) = onErrorCallback m"
  "promises (queue_items items m) = promises m"
  "reactions (queue_items items m) = reactions m"
  "calls (queue_items items m) = calls m"
  unfolding queue_items_def
  by (induction items arbitrary: m) (simp_all add: queue_asset_def)

lemma queued_fields:
  "loadingQueue (queued onProgress onComplete onError items) = items"
  "totalItems (queued onProgress onComplete onError items) = length items"
  "loadedItems (queued onProgress onComplete onError items) = 0"
  "onProgressCallback (queued onProgress onComplete onError items) = onProgress"
  "onCompleteCallback (queued onProgress onComplete onError items) =
     (case onComplete of None \<Rightarrow> NoCallback | Some cb \<Rightarrow> CallerCallback cb)"
  "onErrorCallback (queued onProgress onComplete onError items) = onError"
  "promises (queued onProgress onComplete onError items) = []"
  "reactions (queued onProgress onComplete onError items) = []"
  "calls (queued onProgress onComplete onError items) = []"
  by (simp_all add: queued_def queue_items_fields setCallbacks_def new_AssetManager_def Let_def
      split: option.split)

lemma settle_promise_fields:
  "totalItems (settle_promise p outcome m) = totalItems m"
  "loadedItems (settle_promise p outcome m) = loadedItems m"
  "onProgressCallback (settle_promise p outcome m) = onProgressCallback m"
  "onCompleteCallback (settle_promise p outcome m) = onCompleteCallback m"
  "onErrorCallback (settle_promise p outcome m) = onErrorCallback m"
  "calls (settle_promise p outcome m) = calls m"
  "reactions (settle_promise p outcome m) = reactions m"
  "length (promises (settle_promise p outcome m)) = length (promises m)"
  by (simp_all add: settle_promise_def)

lemma settle_promise_settled:
  "q < length (promises m) \<Longrightarrow> promises m ! q \<noteq> Pending \<Longrightarrow>
     promises (settle_promise p outcome m) ! q = promises m ! q"
  by (cases "p = q") (simp_all add: settle_promise_def)

lemma call_complete_fields:
  "totalItems (call_complete cb m) = totalItems m"
  "loadedItems (call_complete cb m) = loadedItems m"
  "onProgressCallback (call_complete cb m) = onProgressCallback m"
  "onCompleteCallback (call_complete cb m) = onCompleteCallback m"
  "onErrorCallback (call_complete cb m) = onErrorCallback m"
  "reactions (call_complete cb m) = reactions m"
  "length (promises (call_complete cb m)) = length (promises m)"
  by (induction cb arbitrary: m) (simp_all add: settle_promise_fields)

lemma store_asset_fields:
  "totalItems (store_asset ty name a m) = totalItems m"
  "loadedItems (store_asset ty name a m) = loadedItems m"
  "onProgressCallback (store_asset ty name a m) = onProgressCallback m"
  "onCompleteCallback (store_asset ty name a m) = onCompleteCallback m"
  "onErrorCallback (store_asset ty name a m) = onErrorCallback m"
  "promises (store_asset ty name a m) = promises m"
  "reactions (store_asset ty name a m) = reactions m"
  "calls (store_asset ty name a m) = calls m"
  by (cases ty; simp add: store_asset_def)+

text \<open>The end of a task changes nothing but the promises and the queue of reactions.\<close>

lemma fold_reject_fields:
  "totalItems (fold (\<lambda>(p, error). settle_promise p (Rejected error)) rs m) = totalItems m"
  "loadedItems (fold (\<lambda>(p, error). settle_promise p (Rejected error)) rs m) = loadedItems m"
  "onProgressCallback (fold (\<lambda>(p, error). settle_promise p (Rejected error)) rs m) = onProgressCallback m"
  "onCompleteCallback (fold (\<lambda>(p, error). settle_promise p (Rejected error)) rs m) = onCompleteCallback m"
  "calls (fold (\<lambda>(p, error). settle_promise p (Rejected error)) rs m) = calls m"
  "length (promises (fold (\<lambda>(p, error). settle_promise p (Rejected error)) rs m)) = length (promises m)"
  by (induction rs arbitrary: m; simp add: settle_promise_fields split: prod.split)+

lemma run_reactions_fields:
  "totalItems (run_reactions m) = totalItems m"
  "loadedItems (run_reactions m) = loadedItems m"
  "onProgressCallback (run_reactions m) = onProgressCallback m"
  "onCompleteCallback (run_reactions m) = onCompleteCallback m"
  "calls (run_reactions m) = calls m"
  "length (promises (run_reactions m)) = length (promises m)"
  "reactions (run_reactions m) = []"
  by (simp_all add: run_reactions_def fold_reject_fields)

text \<open>\<open>updateProgress\<close> before the last item, and at the last item of a \<open>loadAll\<close> run.\<close>

lemma updateProgress_before_last:
  assumes "Suc (loadedItems m) \<noteq> totalItems m"
  shows "updateProgress m =
           m\<lparr>loadedItems := Suc (loadedItems m),
             calls := calls m @
               (case onProgressCallback m of
                  None \<Rightarrow> []
                | Some cb \<Rightarrow>
                    [OnProgress cb
                       (if totalItems m = 0 then None
                        else Some (real (Suc (loadedItems m)) / real (totalItems m) * 100))
                       (Suc (loadedItems m)) (totalItems m)])\<rparr>"
  using assms by (simp add: updateProgress_def Let_def split: option.split)

lemma updateProgress_last:
  assumes "Suc (loadedItems m) = totalItems m"
    and "onCompleteCallback m = LoadAllCallback p original"
    and "original = NoCallback \<or> original = CallerCallback cb"
  shows "updateProgress m =
           settle_promise p FulfilledAssets
            (m\<lparr>loadedItems := totalItems m,
               calls := calls m @
                 (case onProgressCallback m of
                    None \<Rightarrow> []
                  | Some pc \<Rightarrow> [OnProgress pc (Some 100) (totalItems m) (totalItems m)]) @
                 (if original = NoCallback then [] else [OnComplete cb])\<rparr>)"
proof -
  have "real (totalItems m) / real (totalItems m) * 100 = 100"
    using assms(1) by (simp add: )
  then show ?thesis
    using assms by (auto simp add: updateProgress_def Let_def split: option.split)
qed

lemma handleError_updateProgress:
  "handleError ty url error m =
     updateProgress
       (m\<lparr>am_console := am_console m @ [Error (''Error loading '' @ asset_type_name ty @ '': '' @ url)],
          calls := calls m @ (case onErrorCallback m of None \<Rightarrow> [] | Some cb \<Rightarrow> [OnError cb ty url error])\<rparr>)"
  by (simp add: handleError_def Let_def split: option.split)

text \<open>One loader callback while other loads of the run are still out.\<close>

lemma loader_callback_before_last:
  assumes "Suc (loadedItems m) \<noteq> totalItems m"
  shows "loadedItems (loader_callback p item result m) = Suc (loadedItems m)"
    and "totalItems (loader_callback p item result m) = totalItems m"
    and "onProgressCallback (loader_callback p item result m) = onProgressCallback m"
    and "onCompleteCallback (loader_callback p item result m) = onCompleteCallback m"
    and "promises (loader_callback p item result m) = promises m"
    and "filter is_OnComplete (calls (loader_callback p item result m)) = filter is_OnComplete (calls m)"
    and "filter is_OnProgress (calls (loader_callback p item result m)) =
           filter is_OnProgress (calls m) @
             (case onProgressCallback m of
                None \<Rightarrow> []
              | Some pc \<Rightarrow>
                  [OnProgress pc
                     (if totalItems m = 0 then None
                      else Some (real (Suc (loadedItems m)) / real (totalItems m) * 100))
                     (Suc (loadedItems m)) (totalItems m)])"
  using assms
  by (cases result;
      simp add: loader_callback_def handleError_updateProgress updateProgress_before_last
        store_asset_fields Let_def split: option.split)+

text \<open>The last load of a \<open>loadAll\<close> run settling.\<close>

lemma updateProgress_last_facts:
  assumes "Suc (loadedItems m) = totalItems m"
    and "onCompleteCallback m = LoadAllCallback p original"
    and "original = NoCallback \<or> original = CallerCallback cb"
    and "p < length (promises m)"
  shows "loadedItems (updateProgress m) = totalItems m"
    and "filter is_OnComplete (calls (updateProgress m)) =
           filter is_OnComplete (calls m) @ (if original = NoCallback then [] else [OnComplete cb])"
    and "original = CallerCallback cb \<Longrightarrow> last (calls (updateProgress m)) = OnComplete cb"
    and "filter is_OnProgress (calls (updateProgress m)) =
           filter is_OnProgress (calls m) @
             (case onProgressCallback m of
                None \<Rightarrow> []
              | Some pc \<Rightarrow> [OnProgress pc (Some 100) (totalItems m) (totalItems m)])"
    and "promises (updateProgress m) ! p =
           (if promises m ! p = Pending then FulfilledAssets else promises m ! p)"
    and "length (promises (updateProgress m)) = length (promises m)"
  using assms(3,4) unfolding updateProgress_last [OF assms(1,2,3)]
  by (auto simp add: settle_promise_def split: option.split)

lemma updateProgress_totalItems: "totalItems (updateProgress m) = totalItems m"
  by (simp add: updateProgress_def Let_def call_complete_fields split: option.split)

lemma loader_callback_last:
  assumes "Suc (loadedItems m) = totalItems m"
    and "onCompleteCallback m = LoadAllCallback p original"
    and "original = NoCallback \<or> original = CallerCallback cb"
    and "p < length (promises m)"
  shows "loadedItems (loader_callback p item result m) = totalItems m \<and>
    totalItems (loader_callback p item result m) = totalItems m \<and>
    filter is_OnComplete (calls (loader_callback p item result m)) =
           filter is_OnComplete (calls m) @ (if original = NoCallback then [] else [OnComplete cb]) \<and>
    (original = CallerCallback cb \<longrightarrow> last (calls (loader_callback p item result m)) = OnComplete cb) \<and>
    filter is_OnProgress (calls (loader_callback p item result m)) =
           filter is_OnProgress (calls m) @
             (case onProgressCallback m of
                None \<Rightarrow> []
              | Some pc \<Rightarrow> [OnProgress pc (Some 100) (totalItems m) (totalItems m)]) \<and>
    promises (loader_callback p item result m) ! p =
           (if promises m ! p = Pending then FulfilledAssets else promises m ! p) \<and>
    length (promises (loader_callback p item result m)) = length (promises m)"
proof (cases result)
  case (Loaded a)
  let ?m = "store_asset (item_type item) (item_name item) a m"
  have h: "Suc (loadedItems ?m) = totalItems ?m" "onCompleteCallback ?m = LoadAllCallback p original"
    "p < length (promises ?m)"
    using assms by (simp_all add: store_asset_fields)
  note f = updateProgress_last_facts [OF h(1,2) assms(3) h(3)]
  have t: "totalItems (updateProgress ?m) = totalItems ?m"
    by (rule updateProgress_totalItems)
  show ?thesis
    unfolding Loaded loader_callback_def load_result.case
    using f t by (simp add: store_asset_fields split: option.split)
next
  case (Failed error)
  let ?m = "m\<lparr>am_console := am_console m @
               [Error (''Error loading '' @ asset_type_name (item_type item) @ '': '' @ item_url item)],
             calls := calls m @ (case onErrorCallback m of None \<Rightarrow> []
               | Some ecb \<Rightarrow> [OnError ecb (item_type item) (item_url item) error])\<rparr>"
  have h: "Suc (loadedItems ?m) = totalItems ?m" "onCompleteCallback ?m = LoadAllCallback p original"
    "p < length (promises ?m)"
    using assms by simp_all
  note f = updateProgress_last_facts [OF h(1,2) assms(3) h(3)]
  have t: "totalItems (updateProgress ?m) = totalItems ?m"
    by (rule updateProgress_totalItems)
  have c: "filter is_OnComplete (calls ?m) = filter is_OnComplete (calls m)"
    "filter is_OnProgress (calls ?m) = filter is_OnProgress (calls m)"
    by (simp_all split: option.split)
  have "loader_callback p item result m =
          (updateProgress ?m)\<lparr>reactions := reactions (updateProgress ?m) @ [(p, error)]\<rparr>"
    by (simp add: Failed loader_callback_def handleError_updateProgress Let_def)
  then show ?thesis
    using f t c by (simp split: option.split)
qed

text \<open>The end of a task leaves a settled promise as it is.\<close>

lemma run_reactions_settled:
  assumes "q < length (promises m)" and "promises m ! q \<noteq> Pending"
  shows "promises (run_reactions m) ! q = promises m ! q"
proof -
  have "promises (fold (\<lambda>(p, error). settle_promise p (Rejected error)) rs m) ! q = promises m ! q"
    if "q < length (promises m)" "promises m ! q \<noteq> Pending" for rs m
    using that
  proof (induction rs arbitrary: m)
    case Nil
    show ?case by simp
  next
    case (Cons r rs)
    obtain p error where r: "r = (p, error)" by (cases r)
    have "q < length (promises (settle_promise p (Rejected error) m))"
      "promises (settle_promise p (Rejected error) m) ! q \<noteq> Pending"
      using Cons.prems by (simp_all add: settle_promise_fields settle_promise_settled)
    from Cons.IH [OF this] show ?case
      using Cons.prems by (simp add: r settle_promise_settled)
  qed
  from this [OF assms] show ?thesis by (simp add: run_reactions_def)
qed

lemma loads_settled_append:
  "loads_settled p (xs @ ys) m = loads_settled p ys (loads_settled p xs m)"
  by (induction p xs m rule: loads_settled.induct) simp_all

text \<open>A run while loads are still out: no loader callback is the last one.\<close>

lemma loads_settled_frame:
  assumes "loadedItems m + length (filter is_Settled evs) < totalItems m"
  shows "loadedItems (loads_settled p evs m) = loadedItems m + length (filter is_Settled evs) \<and>
         totalItems (loads_settled p evs m) = totalItems m \<and>
         onProgressCallback (loads_settled p evs m) = onProgressCallback m \<and>
         onCompleteCallback (loads_settled p evs m) = onCompleteCallback m \<and>
         length (promises (loads_settled p evs m)) = length (promises m) \<and>
         filter is_OnComplete (calls (loads_settled p evs m)) = filter is_OnComplete (calls m)"
  using assms
proof (induction p evs m rule: loads_settled.induct)
  case (1 p m)
  show ?case by simp
next
  case (2 p item result rest m)
  from "2.prems" have n: "Suc (loadedItems m) \<noteq> totalItems m" by simp
  note s = loader_callback_before_last [OF n, of p item result]
  have "loadedItems (loader_callback p item result m) + length (filter is_Settled rest)
          < totalItems (loader_callback p item result m)"
    using "2.prems" by (simp add: s)
  from "2.IH" [OF this] show ?case by (simp add: s)
next
  case (3 p rest m)
  have "loadedItems (run_reactions m) + length (filter is_Settled rest) < totalItems (run_reactions m)"
    using "3.prems" by (simp add: run_reactions_fields)
  from "3.IH" [OF this] show ?case by (simp add: run_reactions_fields)
qed

lemma loads_settled_progress:
  assumes "loadedItems m + length (filter is_Settled evs) < totalItems m"
    and "onProgressCallback m = Some pc"
  shows "filter is_OnProgress (calls (loads_settled p evs m)) =
           filter is_OnProgress (calls m) @
             map (\<lambda>k. OnProgress pc (Some (real k / real (totalItems m) * 100)) k (totalItems m))
               [Suc (loadedItems m) ..< Suc (loadedItems m + length (filter is_Settled evs))]"
  using assms
proof (induction p evs m rule: loads_settled.induct)
  case (1 p m)
  show ?case by simp
next
  case (2 p item result rest m)
  from "2.prems" have n: "Suc (loadedItems m) \<noteq> totalItems m" "totalItems m \<noteq> 0" by simp_all
  note s = loader_callback_before_last [OF n(1), of p item result]
  have h: "loadedItems (loader_callback p item result m) + length (filter is_Settled rest)
             < totalItems (loader_callback p item result m)"
    "onProgressCallback (loader_callback p item result m) = Some pc"
    using "2.prems" by (simp_all add: s)
  have u: "[Suc (loadedItems m) ..< Suc (loadedItems m + length (filter is_Settled (Settled item result # rest)))] =
           Suc (loadedItems m) # [Suc (Suc (loadedItems m)) ..< Suc (Suc (loadedItems m) + length (filter is_Settled rest))]"
    by (subst upt_rec) simp
  from "2.IH" [OF h] show ?case
    unfolding u using "2.prems"(2) n(2) by (simp add: s)
next
  case (3 p rest m)
  have h: "loadedItems (run_reactions m) + length (filter is_Settled rest) < totalItems (run_reactions m)"
    "onProgressCallback (run_reactions m) = Some pc"
    using "3.prems" by (simp_all add: run_reactions_fields)
  from "3.IH" [OF h] show ?case by (simp add: run_reactions_fields)
qed

text \<open>After the last loader callback only ends of tasks follow.\<close>

lemma loads_settled_task_ends:
  assumes "filter is_Settled evs = []"
  shows "calls (loads_settled p evs m) = calls m \<and>
         loadedItems (loads_settled p evs m) = loadedItems m \<and>
         totalItems (loads_settled p evs m) = totalItems m \<and>
         length (promises (loads_settled p evs m)) = length (promises m) \<and>
         (q < length (promises m) \<longrightarrow> promises m ! q \<noteq> Pending \<longrightarrow>
            promises (loads_settled p evs m) ! q = promises m ! q)"
  using assms
proof (induction p evs m rule: loads_settled.induct)
  case (1 p m)
  show ?case by simp
next
  case (2 p item result rest m)
  then show ?case by simp
next
  case (3 p rest m)
  from "3.prems" have "filter is_Settled rest = []" by simp
  from "3.IH" [OF this] show ?case
    by (auto simp add: run_reactions_fields run_reactions_settled)
qed

text \<open>The events of a run, split at the last loader callback.\<close>

lemma split_at_last_callback:
  assumes "filter is_Settled evs \<noteq> []"
  shows "\<exists>before item result after.
           evs = before @ Settled item result # after \<and> filter is_Settled after = []"
  using assms
proof (induction evs rule: rev_induct)
  case Nil
  then show ?case by simp
next
  case (snoc ev evs)
  show ?case
  proof (cases ev)
    case (Settled item result)
    then have "evs @ [ev] = evs @ Settled item result # [] \<and> filter is_Settled [] = []" by simp
    then show ?thesis by blast
  next
    case TaskEnd
    with snoc.prems have "filter is_Settled evs \<noteq> []" by simp
    from snoc.IH [OF this] obtain before item result after
      where "evs = before @ Settled item result # after" "filter is_Settled after = []"
      by blast
    then have "evs @ [ev] = before @ Settled item result # (after @ [TaskEnd]) \<and>
               filter is_Settled (after @ [TaskEnd]) = []"
      using TaskEnd by simp
    then show ?thesis by blast
  qed
qed

lemma loadAll_queued:
  assumes "items \<noteq> []"
  shows "loadAll (queued onProgress onComplete onError items) =
           (0, (queued onProgress onComplete onError items)
                 \<lparr>promises := [Pending],
                  onCompleteCallback := LoadAllCallback 0
                    (case onComplete of None \<Rightarrow> NoCallback | Some cb \<Rightarrow> CallerCallback cb)\<rparr>)"
  using assms by (simp add: loadAll_def queued_fields)

text \<open>
  A whole run: \<open>loadAll\<close> on the queued items, then events in which every item is
  reported once.
\<close>

lemma run_outcome:
  fixes onProgress onComplete onError :: "nat option" and items :: "queue_item list"
  assumes "items \<noteq> []" and "length (filter is_Settled evs) = length items"
  defines "m \<equiv> snd (loadAll (queued onProgress onComplete onError items))"
  shows "loadedItems (loads_settled 0 evs m) = length items"
    and "totalItems (loads_settled 0 evs m) = length items"
    and "filter is_OnComplete (calls (loads_settled 0 evs m)) =
           (case onComplete of None \<Rightarrow> [] | Some cb \<Rightarrow> [OnComplete cb])"
    and "onComplete = Some cb \<Longrightarrow> last (calls (loads_settled 0 evs m)) = OnComplete cb"
    and "length (filter is_Settled (take k evs)) < length items \<Longrightarrow>
         filter is_OnComplete (calls (loads_settled 0 (take k evs) m)) = []"
    and "onProgress = Some pc \<Longrightarrow>
         filter is_OnProgress (calls (loads_settled 0 evs m)) =
           map (\<lambda>k. OnProgress pc (Some (real k / real (length items) * 100)) k (length items))
             [1 ..< Suc (length items)]"
proof -
  let ?orig = "case onComplete of None \<Rightarrow> NoCallback | Some cb \<Rightarrow> CallerCallback cb"
  let ?cb = "case onComplete of None \<Rightarrow> 0 | Some cb \<Rightarrow> cb"
  have m: "loadedItems m = 0" "totalItems m = length items" "onProgressCallback m = onProgress"
    "onCompleteCallback m = LoadAllCallback 0 ?orig" "promises m = [Pending]" "calls m = []"
    by (simp_all add: m_def loadAll_queued [OF assms(1)] queued_fields)
  have orig: "?orig = NoCallback \<or> ?orig = CallerCallback ?cb"
    by (simp split: option.split)
  obtain n where n: "length items = Suc n" using assms(1) by (cases items) simp_all
  have "filter is_Settled evs \<noteq> []" using assms(2) n by auto
  from split_at_last_callback [OF this] obtain before item result after
    where split: "evs = before @ Settled item result # after"
      and after: "filter is_Settled after = []"
    by blast
  have b: "length (filter is_Settled before) = n"
    using assms(2) n after unfolding split by simp
  let ?pre = "loads_settled 0 before m"
  let ?at = "loader_callback 0 item result ?pre"
  have pre: "loadedItems m + length (filter is_Settled before) < totalItems m"
    unfolding m b n by simp
  have frame: "loadedItems ?pre = n" "totalItems ?pre = Suc n"
    "onProgressCallback ?pre = onProgress" "onCompleteCallback ?pre = LoadAllCallback 0 ?orig"
    "length (promises ?pre) = 1" "filter is_OnComplete (calls ?pre) = []"
    using loads_settled_frame [OF pre, of 0] unfolding m b n by simp_all
  have final: "loads_settled 0 evs m = loads_settled 0 after ?at"
    unfolding split by (simp add: loads_settled_append)
  have lastp: "Suc (loadedItems ?pre) = totalItems ?pre" "0 < length (promises ?pre)"
    by (simp_all add: frame)
  note fin = loader_callback_last [OF lastp(1) frame(4) orig lastp(2), of item result]
  note post = loads_settled_task_ends [OF after, of 0 ?at]
  have c: "calls (loads_settled 0 evs m) = calls ?at"
    "loadedItems (loads_settled 0 evs m) = loadedItems ?at"
    "totalItems (loads_settled 0 evs m) = totalItems ?at"
    unfolding final using post by blast+
  show "loadedItems (loads_settled 0 evs m) = length items"
    unfolding c using fin by (simp add: frame n)
  show "totalItems (loads_settled 0 evs m) = length items"
    unfolding c using fin by (simp add: frame n)
  show "filter is_OnComplete (calls (loads_settled 0 evs m)) =
           (case onComplete of None \<Rightarrow> [] | Some cb \<Rightarrow> [OnComplete cb])"
    unfolding c using fin by (simp add: frame split: option.split)
  show "last (calls (loads_settled 0 evs m)) = OnComplete cb" if "onComplete = Some cb"
    unfolding c using fin that by simp
  show "filter is_OnComplete (calls (loads_settled 0 (take k evs) m)) = []"
    if "length (filter is_Settled (take k evs)) < length items"
  proof -
    have "loadedItems m + length (filter is_Settled (take k evs)) < totalItems m"
      using that by (simp add: m)
    from loads_settled_frame [OF this, of 0] show ?thesis by (simp add: m)
  qed
  show "filter is_OnProgress (calls (loads_settled 0 evs m)) =
           map (\<lambda>k. OnProgress pc (Some (real k / real (length items) * 100)) k (length items))
             [1 ..< Suc (length items)]" if "onProgress = Some pc"
  proof -
    have pcm: "onProgressCallback m = Some pc" using that by (simp add: m)
    let ?f = "\<lambda>k. OnProgress pc (Some (real k / real (Suc n) * 100)) k (Suc n)"
    have before: "filter is_OnProgress (calls ?pre) = map ?f [Suc 0 ..< Suc n]"
      using loads_settled_progress [OF pre pcm, of 0] unfolding m(1,2,6) b n by simp
    have "0 \<le> real n" by simp
    then have "0 < 1 + real n" by linarith
    then have at_end: "(100 + real n * 100) / (1 + real n) = 100"
      by (simp add: field_simps)
    have "filter is_OnProgress (calls (loads_settled 0 evs m)) =
            map ?f [Suc 0 ..< Suc n] @ [?f (Suc n)]"
      unfolding c using fin by (simp add: before frame that at_end)
    also have "\<dots> = map ?f [Suc 0 ..< Suc (Suc n)]" by (simp add: at_end)
    finally show ?thesis by (simp add: n at_end)
  qed
qed

text \<open>
  Claim C4: a new manager with a completion callback, N > 0 queued assets, then
  \<open>loadAll\<close> and events in which each of the N loads is reported once, in any order,
  any of them failing, with the tasks ending anywhere in between. The completion callback
  is called exactly once; it is the last callback called, and it has not been called
  while a load was still out. Every load, failed or not, counts: the progress callback is
  called N times, the k-th time with k of N and \<open>k / N * 100\<close> percent, the last time
  with 100.
\<close>

theorem completion_fires_once_after_all_loads:
  fixes onProgress onError :: "nat option" and items :: "queue_item list"
  assumes "items \<noteq> []" and "length (filter is_Settled evs) = length items"
  shows "(let started = loadAll (queued onProgress (Some cb) onError items);
              done = loads_settled (fst started) evs (snd started)
          in filter is_OnComplete (calls done) = [OnComplete cb] \<and>
             last (calls done) = OnComplete cb \<and>
             (\<forall>k. length (filter is_Settled (take k evs)) < length items \<longrightarrow>
                filter is_OnComplete (calls (loads_settled (fst started) (take k evs) (snd started))) = []) \<and>
             loadedItems done = length items \<and>
             totalItems done = length items \<and>
             (\<forall>pc. onProgress = Some pc \<longrightarrow>
                filter is_OnProgress (calls done) =
                  map (\<lambda>k. OnProgress pc (Some (real k / real (length items) * 100)) k (length items))
                    [1 ..< Suc (length items)] \<and>
                last (filter is_OnProgress (calls done)) =
                  OnProgress pc (Some 100) (length items) (length items)))"
proof -
  have z: "fst (loadAll (queued onProgress (Some cb) onError items)) = 0"
    by (simp add: loadAll_queued [OF assms(1)])
  note r = run_outcome [OF assms, where onProgress = onProgress and onComplete = "Some cb"
      and onError = onError]
  have p: "last (filter is_OnProgress
              (calls (loads_settled 0 evs (snd (loadAll (queued onProgress (Some cb) onError items)))))) =
           OnProgress pc (Some 100) (length items) (length items)" if "onProgress = Some pc" for pc
  proof -
    obtain n where n: "length items = Suc n" using assms(1) by (cases items) simp_all
    have "0 \<le> real n" by simp
    then have "0 < 1 + real n" by linarith
    then have "(100 + real n * 100) / (1 + real n) = 100" by (simp add: field_simps)
    then show ?thesis unfolding r(6) [OF that] n by simp
  qed
  show ?thesis
    unfolding Let_def z using r(1,2,3,4,5,6) p by simp
qed

theorem completion_fires_once_after_all_loads_witness:
  "(let stars = \<lparr>item_type = Texture, item_name = ''stars'', item_url = ''stars.jpg''\<rparr>;
        noise = \<lparr>item_type = Texture, item_name = ''noise'', item_url = ''noise.jpg''\<rparr>;
        glow = \<lparr>item_type = Texture, item_name = ''glow'', item_url = ''glow.png''\<rparr>;
        platform = \<lparr>item_type = Model, item_name = ''platform'', item_url = ''platform.glb''\<rparr>;
        items = [stars, noise, glow, platform];
        evs = [Settled stars (Loaded ''stars''), TaskEnd, Settled platform (Failed ''404''),
               Settled noise (Loaded ''noise''), TaskEnd, Settled glow (Loaded ''glow''), TaskEnd];
        started = loadAll (queued (Some 1) (Some 2) None items);
        done = loads_settled (fst started) evs (snd started)
    in items \<noteq> [] \<and> length (filter is_Settled evs) = length items \<and>
       length (filter is_Settled (take 5 evs)) < length items \<and>
       filter is_OnComplete (calls done) = [OnComplete 2] \<and>
       last (calls done) = OnComplete 2 \<and>
       filter is_OnComplete (calls (loads_settled (fst started) (take 5 evs) (snd started))) = [] \<and>
       filter is_OnProgress (calls done) =
         [OnProgress 1 (Some 25) 1 4, OnProgress 1 (Some 50) 2 4, OnProgress 1 (Some 75) 3 4,
          OnProgress 1 (Some 100) 4 4])"
proof -
  let ?stars = "\<lparr>item_type = Texture, item_name = ''stars'', item_url = ''stars.jpg''\<rparr>"
  let ?noise = "\<lparr>item_type = Texture, item_name = ''noise'', item_url = ''noise.jpg''\<rparr>"
  let ?glow = "\<lparr>item_type = Texture, item_name = ''glow'', item_url = ''glow.png''\<rparr>"
  let ?platform = "\<lparr>item_type = Model, item_name = ''platform'', item_url = ''platform.glb''\<rparr>"
  let ?items = "[?stars, ?noise, ?glow, ?platform]"
  let ?evs = "[Settled ?stars (Loaded ''stars''), TaskEnd, Settled ?platform (Failed ''404''),
               Settled ?noise (Loaded ''noise''), TaskEnd, Settled ?glow (Loaded ''glow''), TaskEnd]"
  let ?started = "loadAll (queued (Some 1) (Some 2) None ?items)"
  have h: "?items \<noteq> []" "length (filter is_Settled ?evs) = length ?items" by simp_all
  have u: "[1 ..< Suc (length ?items)] = [1, 2, 3, 4]" by (simp add: upt_rec)
  have k: "length (filter is_Settled (take 5 ?evs)) < length ?items" by simp
  note t = completion_fires_once_after_all_loads [OF h, of "Some 1" 2 None, unfolded Let_def]
  from t have a: "filter is_OnComplete (calls (loads_settled (fst ?started) ?evs (snd ?started))) =
      [OnComplete 2]"
    and b: "last (calls (loads_settled (fst ?started) ?evs (snd ?started))) = OnComplete 2"
    by blast+
  from t k have c: "filter is_OnComplete
      (calls (loads_settled (fst ?started) (take 5 ?evs) (snd ?started))) = []"
    by blast
  from t have "filter is_OnProgress (calls (loads_settled (fst ?started) ?evs (snd ?started))) =
      map (\<lambda>k. OnProgress 1 (Some (real k / real (length ?items) * 100)) k (length ?items))
        [1 ..< Suc (length ?items)]"
    by blast
  then have d: "filter is_OnProgress (calls (loads_settled (fst ?started) ?evs (snd ?started))) =
      [OnProgress 1 (Some 25) 1 4, OnProgress 1 (Some 50) 2 4, OnProgress 1 (Some 75) 3 4,
          OnProgress 1 (Some 100) 4 4]"
    unfolding u by simp
  show ?thesis unfolding Let_def using h k a b c d by blast
qed

text \<open>
  A load that fails in an earlier task than the last callback rejects the promise of
  \<open>loadAll\<close>.
\<close>

lemma loadAll_rejected_when_earlier_load_fails:
  "promises
     (loads_settled 0
        [Settled \<lparr>item_type = Model, item_name = ''platform'', item_url = ''platform.glb''\<rparr> (Failed ''404''),
         TaskEnd,
         Settled \<lparr>item_type = Texture, item_name = ''stars'', item_url = ''stars.jpg''\<rparr> (Loaded ''stars''),
         TaskEnd]
        (snd (loadAll (queued None None None
           [\<lparr>item_type = Texture, item_name = ''stars'', item_url = ''stars.jpg''\<rparr>,
            \<lparr>item_type = Model, item_name = ''platform'', item_url = ''platform.glb''\<rparr>])))) ! 0
   = Rejected ''404''"
  by (simp add: loader_callback_def run_reactions_def updateProgress_def handleError_def
      store_asset_def settle_promise_def loadAll_def queued_def queue_items_def queue_asset_def
      setCallbacks_def new_AssetManager_def Let_def)

text \<open>
  Two loads failing within one task, the last of the run: the second callback completes
  the count and fulfils the promise before either rejection is passed on.
\<close>

lemma loadAll_fulfilled_when_last_task_fails:
  "promises
     (loads_settled 0
        [Settled \<lparr>item_type = Model, item_name = ''a'', item_url = ''same.glb''\<rparr> (Failed ''404''),
         Settled \<lparr>item_type = Model, item_name = ''b'', item_url = ''same.glb''\<rparr> (Failed ''404''),
         TaskEnd]
        (snd (loadAll (queued None None None
           [\<lparr>item_type = Model, item_name = ''a'', item_url = ''same.glb''\<rparr>,
            \<lparr>item_type = Model, item_name = ''b'', item_url = ''same.glb''\<rparr>])))) ! 0
   = FulfilledAssets"
  by (simp add: loader_callback_def run_reactions_def updateProgress_def handleError_def
      store_asset_def settle_promise_def loadAll_def queued_def queue_items_def queue_asset_def
      setCallbacks_def new_AssetManager_def Let_def)

text \<open>
  Claim C10: whenever a queued asset fails, the promise of \<open>loadAll\<close> is rejected with
  the first failure's error. Every load has its \<open>.catch(reject)\<close>, yet the rejection is
  lost when the failing load is reported last: three textures load, then the model
  fails. Its \<open>handleError\<close> completes the count and the completion closure fulfils the
  promise at once; the rejection arrives at the end of the task and finds the promise
  settled, fulfilled with the partial asset tables.
\<close>

theorem loadAll_fulfilled_when_last_load_fails:
  "fst (loadAll (queued None None None
           [\<lparr>item_type = Texture, item_name = ''stars'', item_url = ''stars.jpg''\<rparr>,
            \<lparr>item_type = Texture, item_name = ''noise'', item_url = ''noise.jpg''\<rparr>,
            \<lparr>item_type = Texture, item_name = ''glow'', item_url = ''glow.png''\<rparr>,
            \<lparr>item_type = Model, item_name = ''platform'', item_url = ''platform.glb''\<rparr>])) = 0 \<and>
   promises
     (loads_settled 0
        [Settled \<lparr>item_type = Texture, item_name = ''stars'', item_url = ''stars.jpg''\<rparr> (Loaded ''stars''),
         TaskEnd,
         Settled \<lparr>item_type = Texture, item_name = ''noise'', item_url = ''noise.jpg''\<rparr> (Loaded ''noise''),
         TaskEnd,
         Settled \<lparr>item_type = Texture, item_name = ''glow'', item_url = ''glow.png''\<rparr> (Loaded ''glow''),
         TaskEnd,
         Settled \<lparr>item_type = Model, item_name = ''platform'', item_url = ''platform.glb''\<rparr> (Failed ''404''),
         TaskEnd]
        (snd (loadAll (queued None None None
           [\<lparr>item_type = Texture, item_name = ''stars'', item_url = ''stars.jpg''\<rparr>,
            \<lparr>item_type = Texture, item_name = ''noise'', item_url = ''noise.jpg''\<rparr>,
            \<lparr>item_type = Texture, item_name = ''glow'', item_url = ''glow.png''\<rparr>,
            \<lparr>item_type = Model, item_name = ''platform'', item_url = ''platform.glb''\<rparr>])))) ! 0
   = FulfilledAssets"
  by (simp add: loader_callback_def run_reactions_def updateProgress_def handleError_def
      store_asset_def settle_promise_def loadAll_def queued_def queue_items_def queue_asset_def
      setCallbacks_def new_AssetManager_def Let_def)

end
